theory Spec2Isabelle
  imports Complex_Main "HOL-Library.Word"
begin

section \<open>The DOPP desktop capture session (GLDOPPCapture)\<close>

text \<open>
  The class \<open>GLDOPPCapture\<close> is embedded as a record of its member variables and one
  function per member function. Everything the class does outside its own fields goes
  through OpenGL, the AMD desktop extension, the DOPP driver interface and Win32. Those are
  not part of the class: what they return is read from a record \<open>driver\<close> handed to every
  function, and every call made to them is appended, in program order, to the list of
  \<open>call\<close>s the function returns. Stores to the two members that the notification thread
  reads or writes (\<open>m_bTrackDesktopChanges\<close>, \<open>m_bDesktopChanged\<close>) are recorded in the
  same list, since their position among the event calls is what the other thread observes.
  The list holds the calls of the calling thread only; what the notification thread does
  meanwhile is seen in the members and in the state of the two events.

  \<open>GLuint\<close>, \<open>unsigned int\<close> and \<open>DWORD\<close> are 32-bit words, a \<open>HANDLE\<close> is a 64-bit
  word with \<open>NULL = 0\<close>. A pointer member that is only tested and dereferenced is a
  \<open>bool\<close> (non-null) or, for the two arrays, an optional list.
\<close>

type_synonym GLuint = "32 word"
type_synonym uint = "32 word"
type_synonym DWORD = "32 word"
type_synonym HANDLE = "64 word"

datatype RFStatus =
    RF_STATUS_OK
  | RF_STATUS_OPENGL_FAIL
  | RF_STATUS_INVALID_DIMENSION
  | RF_STATUS_DOPP_FAIL
  | RF_STATUS_INVALID_DESKTOP_ID

text \<open>Ways in which a member function does not return normally.\<close>

datatype stop =
    Runtime_error string   \<comment> \<open>\<open>throw std::runtime_error\<close> in the constructor\<close>
  | NullCall               \<comment> \<open>call through an extension pointer that is still null\<close>
  | NullDeref              \<comment> \<open>\<open>m_pFBO[idx]\<close> or \<open>m_pShader->\<close> on a null pointer\<close>
  | OutOfBounds            \<comment> \<open>array read past the allocated length\<close>
  | Terminate              \<comment> \<open>assignment to a joinable \<open>std::thread\<close>\<close>
  | BlockedForever         \<comment> \<open>an \<open>INFINITE\<close> wait that is never signaled\<close>

datatype shader_kind = GL_VERTEX_SHADER | GL_FRAGMENT_SHADER

datatype tex_param =
    MAG_FILTER_LINEAR | MIN_FILTER_LINEAR | WRAP_S_CLAMP_TO_EDGE | WRAP_T_CLAMP_TO_EDGE

datatype tex_query = GL_TEXTURE_WIDTH | GL_TEXTURE_HEIGHT

datatype gl_call =
    GlBindTexture GLuint
  | GlGetTexLevelParameteriv tex_query
  | GlTexParameterf tex_param
  | GlGenFramebuffers uint
  | GlGenTextures uint
  | GlTexImage2D uint uint
  | GlBindFramebuffer GLuint
  | GlFramebufferTexture2D GLuint
  | GlCheckFramebufferStatus
  | GlDeleteTextures uint "GLuint list"
  | GlDeleteFramebuffers uint "GLuint list"
  | GlGetViewport
  | GlViewport int int int int
  | GlActiveTexture nat
  | GlUniform1i GLuint int
  | GlDrawArrays
  | GlFinish
  | GlGetUniformLocation

datatype vertex_call =
    GlGenVertexArrays
  | GlBindVertexArray GLuint
  | GlGenBuffers
  | GlBindBuffer GLuint
  | GlBufferData real                    \<comment> \<open>the quad for this rotation angle\<close>
  | GlBufferSubData
  | GlEnableVertexAttribArray nat
  | GlVertexAttribPointer nat
  | GlDeleteBuffers GLuint
  | GlDeleteVertexArrays GLuint

datatype shader_call =
    NewShader
  | DeleteShader
  | CreateShaderFromString shader_kind
  | BuildProgram
  | GetProgram
  | Bind
  | Unbind

datatype wgl_call =
    WglGetCurrentContext
  | WglGetProcAddress string
  | WglEnablePostProcessAMD bool
  | WglDesktopTargetAMD GLuint
  | WglGetDesktopTextureAMD

datatype sys_call =
    GetDoppState                         \<comment> \<open>\<open>m_pDOPPDrvInterface->getDoppState()\<close>\<close>
  | EnableDopp
  | CreateDOPPEvent
  | DeleteDOPPEvent HANDLE
  | CreateEvent
  | SetEvent HANDLE
  | Sleep nat
  | CloseHandle HANDLE
  | WaitForMultipleObjects HANDLE HANDLE
  | ThreadStart                          \<comment> \<open>\<open>std::thread(&GLDOPPCapture::notificationLoop, this)\<close>\<close>
  | ThreadJoin
  | RF_Error RFStatus

datatype call =
    GL gl_call
  | VTX vertex_call
  | SH shader_call
  | WGL wgl_call
  | SYS sys_call
  | LockAcquire                          \<comment> \<open>\<open>RFReadWriteAccess doppLock(&g_GlobalDOPPLock)\<close>\<close>
  | LockRelease                          \<comment> \<open>its destructor at scope exit\<close>
  | StoreTrackDesktopChanges bool
  | StoreDesktopChanged bool

subsection \<open>What the environment answers\<close>

record driver =
  ret_getDoppState :: bool                  \<comment> \<open>first \<open>getDoppState()\<close>\<close>
  ret_getDoppState_enabled :: bool          \<comment> \<open>\<open>getDoppState()\<close> after \<open>enableDopp()\<close>\<close>
  ret_wglGetCurrentContext :: bool          \<comment> \<open>a context is current\<close>
  ret_wglGetProcAddress :: "string \<Rightarrow> bool"  \<comment> \<open>the address is not null\<close>
  ret_wglDesktopTargetAMD :: "GLuint \<Rightarrow> bool"
  ret_wglGetDesktopTextureAMD :: GLuint
  ret_texture_width :: uint
  ret_texture_height :: uint
  ret_newShader :: bool                     \<comment> \<open>\<open>new (std::nothrow) GLShader\<close> is not null\<close>
  ret_createShaderFromString :: "shader_kind \<Rightarrow> bool"
  ret_buildProgram :: bool
  ret_glGetUniformLocation :: GLuint
  ret_glGenFramebuffers :: "nat \<Rightarrow> GLuint"  \<comment> \<open>the name written to array position \<open>i\<close>\<close>
  ret_glGenTextures :: "nat \<Rightarrow> GLuint"
  ret_framebuffer_complete :: "nat \<Rightarrow> bool" \<comment> \<open>the status check in loop iteration \<open>i\<close>\<close>
  ret_glGenVertexArrays :: GLuint
  ret_glGenBuffers :: GLuint
  ret_viewport :: "int \<times> int \<times> int \<times> int"
  ret_createDOPPEvent :: HANDLE
  ret_CreateEvent :: HANDLE
  ret_WaitForMultipleObjects :: "DWORD option"  \<comment> \<open>\<open>None\<close>: the wait never returns\<close>

subsection \<open>The extension entry points (process-wide function pointers)\<close>

record dopp_procs =
  p_wglGetDesktopTextureAMD :: bool
  p_wglEnablePostProcessAMD :: bool
  p_wglPresentTextureToVideoAMD :: bool
  p_wglDesktopTargetAMD :: bool
  p_wglGenPresentTextureAMD :: bool

subsection \<open>The members of the class\<close>

record session =
  m_uiDesktopTexture :: GLuint
  m_uiDesktopId :: uint
  m_uiNumTargets :: uint
  m_uiDesktopWidth :: uint
  m_uiDesktopHeight :: uint
  m_uiPresentWidth :: uint
  m_uiPresentHeight :: uint
  m_pShader :: bool
  m_uiBaseMap :: GLuint
  m_uiVertexBuffer :: GLuint
  m_uiVertexArray :: GLuint
  m_pFBO :: "GLuint list option"
  m_pTexture :: "GLuint list option"
  m_bTrackDesktopChanges :: bool
  m_bBlocking :: bool
  m_hDesktopEvent0 :: HANDLE               \<comment> \<open>\<open>m_hDesktopEvent[0]\<close>, signaled by DOPP\<close>
  m_hDesktopEvent1 :: HANDLE               \<comment> \<open>\<open>m_hDesktopEvent[1]\<close>, the unblock event\<close>
  m_bDesktopChanged :: bool
  m_NotificationThread :: bool             \<comment> \<open>\<open>joinable()\<close>\<close>

definition WAIT_OBJECT_0 :: DWORD where
  "WAIT_OBJECT_0 = 0"

subsection \<open>Constructor\<close>

text \<open>The member initializer list and the two assignments of the constructor body.\<close>

definition member_init :: "uint \<Rightarrow> session" where
  "member_init uiDesktop =
    \<lparr> m_uiDesktopTexture = 0, m_uiDesktopId = uiDesktop, m_uiNumTargets = 2,
      m_uiDesktopWidth = 0, m_uiDesktopHeight = 0,
      m_uiPresentWidth = 0, m_uiPresentHeight = 0,
      m_pShader = False, m_uiBaseMap = 0,
      m_uiVertexBuffer = 0, m_uiVertexArray = 0,
      m_pFBO = None, m_pTexture = None,
      m_bTrackDesktopChanges = False, m_bBlocking = False,
      m_hDesktopEvent0 = 0, m_hDesktopEvent1 = 0,
      m_bDesktopChanged = False, m_NotificationThread = False \<rparr>"

definition GLDOPPCapture :: "driver \<Rightarrow> uint \<Rightarrow> bool \<Rightarrow> stop + (session \<times> call list)" where
  "GLDOPPCapture env uiDesktop pDrv =
    (if \<not> pDrv then Inl (Runtime_error ''DOPP no driver ineterface'')
     else if ret_getDoppState env = False then
       (if \<not> ret_getDoppState_enabled env then Inl (Runtime_error ''DOPP not enabled'')
        else Inr (member_init uiDesktop,
                  [SYS GetDoppState, SYS EnableDopp, SYS GetDoppState, StoreDesktopChanged False]))
     else Inr (member_init uiDesktop, [SYS GetDoppState, StoreDesktopChanged False]))"

subsection \<open>setupDOPPExtension\<close>

text \<open>
  Each \<open>GET_PROC\<close> stores what \<open>wglGetProcAddress\<close> returns in the global pointer and
  leaves the function with \<open>false\<close> when that is null.
\<close>

definition setupDOPPExtension :: "driver \<Rightarrow> dopp_procs \<Rightarrow> bool \<times> dopp_procs \<times> call list" where
  "setupDOPPExtension env g =
    (let g1 = g\<lparr>p_wglGetDesktopTextureAMD := ret_wglGetProcAddress env ''wglGetDesktopTextureAMD''\<rparr>;
         c1 = [WGL (WglGetProcAddress ''wglGetDesktopTextureAMD'')]
     in if \<not> p_wglGetDesktopTextureAMD g1 then (False, g1, c1) else
     let g2 = g1\<lparr>p_wglEnablePostProcessAMD := ret_wglGetProcAddress env ''wglEnablePostProcessAMD''\<rparr>;
         c2 = c1 @ [WGL (WglGetProcAddress ''wglEnablePostProcessAMD'')]
     in if \<not> p_wglEnablePostProcessAMD g2 then (False, g2, c2) else
     let g3 = g2\<lparr>p_wglPresentTextureToVideoAMD := ret_wglGetProcAddress env ''wglPresentTextureToVideoAMD''\<rparr>;
         c3 = c2 @ [WGL (WglGetProcAddress ''wglPresentTextureToVideoAMD'')]
     in if \<not> p_wglPresentTextureToVideoAMD g3 then (False, g3, c3) else
     let g4 = g3\<lparr>p_wglDesktopTargetAMD := ret_wglGetProcAddress env ''wglDesktopTargetAMD''\<rparr>;
         c4 = c3 @ [WGL (WglGetProcAddress ''wglDesktopTargetAMD'')]
     in if \<not> p_wglDesktopTargetAMD g4 then (False, g4, c4) else
     let g5 = g4\<lparr>p_wglGenPresentTextureAMD := ret_wglGetProcAddress env ''wglGenPresentTextureAMD''\<rparr>;
         c5 = c4 @ [WGL (WglGetProcAddress ''wglGenPresentTextureAMD'')]
     in if \<not> p_wglGenPresentTextureAMD g5 then (False, g5, c5) else
     (True, g5, c5))"

subsection \<open>createRenderTargets\<close>

definition tex_filter_calls :: "call list" where
  "tex_filter_calls =
    map GL [GlTexParameterf MAG_FILTER_LINEAR, GlTexParameterf MIN_FILTER_LINEAR,
            GlTexParameterf WRAP_S_CLAMP_TO_EDGE, GlTexParameterf WRAP_T_CLAMP_TO_EDGE]"

text \<open>
  The body of the \<open>for\<close> loop for index \<open>i\<close>. Both arrays were allocated with
  \<open>m_uiNumTargets\<close> entries just before the loop, so \<open>i\<close> is within them.
\<close>

definition createRenderTargets_body ::
  "driver \<Rightarrow> session \<Rightarrow> GLuint list \<Rightarrow> GLuint list \<Rightarrow> nat \<Rightarrow> bool \<times> call list \<Rightarrow> bool \<times> call list" where
  "createRenderTargets_body env s fbo tex i acc =
    (let cs = [GL (GlBindTexture (tex ! i)),
               GL (GlTexImage2D (m_uiPresentWidth s) (m_uiPresentHeight s))]
              @ tex_filter_calls
              @ [GL (GlBindFramebuffer (fbo ! i)), GL (GlFramebufferTexture2D (tex ! i)),
                 GL GlCheckFramebufferStatus]
     in (if \<not> ret_framebuffer_complete env i then False else fst acc, snd acc @ cs))"

primrec createRenderTargets_loop ::
  "driver \<Rightarrow> session \<Rightarrow> GLuint list \<Rightarrow> GLuint list \<Rightarrow> nat list \<Rightarrow> bool \<times> call list \<Rightarrow> bool \<times> call list" where
  "createRenderTargets_loop env s fbo tex [] acc = acc"
| "createRenderTargets_loop env s fbo tex (i # is) acc =
     createRenderTargets_loop env s fbo tex is (createRenderTargets_body env s fbo tex i acc)"

definition createRenderTargets :: "driver \<Rightarrow> session \<Rightarrow> bool \<times> session \<times> call list" where
  "createRenderTargets env s =
    (if m_pFBO s \<noteq> None \<or> m_pTexture s \<noteq> None then (False, s, [])
     else
       let n = unat (m_uiNumTargets s);
           fbo = map (ret_glGenFramebuffers env) [0..<n];
           tex = map (ret_glGenTextures env) [0..<n];
           s' = s\<lparr>m_pFBO := Some fbo, m_pTexture := Some tex\<rparr>;
           c0 = [GL (GlGenFramebuffers (m_uiNumTargets s)), GL (GlGenTextures (m_uiNumTargets s))];
           (bFBStatus, c1) = createRenderTargets_loop env s' fbo tex [0..<n] (True, c0)
       in (bFBStatus, s', c1 @ [GL (GlBindTexture 0), GL (GlBindFramebuffer 0)]))"

subsection \<open>resizePresentTexture\<close>

definition resizePresentTexture ::
  "driver \<Rightarrow> uint \<Rightarrow> uint \<Rightarrow> session \<Rightarrow> RFStatus \<times> session \<times> call list" where
  "resizePresentTexture env uiPresentWidth uiPresentHeight s =
    (let (s1, c1) = (case m_pTexture s of
                       Some tex \<Rightarrow> (s\<lparr>m_pTexture := None\<rparr>, [GL (GlDeleteTextures (m_uiNumTargets s) tex)])
                     | None \<Rightarrow> (s, []));
         (s2, c2) = (case m_pFBO s1 of
                       Some fbo \<Rightarrow> (s1\<lparr>m_pFBO := None\<rparr>, [GL (GlDeleteFramebuffers (m_uiNumTargets s1) fbo)])
                     | None \<Rightarrow> (s1, []));
         s3 = s2\<lparr>m_uiPresentWidth := uiPresentWidth, m_uiPresentHeight := uiPresentHeight\<rparr>;
         (ok, s4, c3) = createRenderTargets env s3
     in if \<not> ok then (RF_STATUS_OPENGL_FAIL, s4, c1 @ c2 @ c3)
        else (RF_STATUS_OK, s4, c1 @ c2 @ c3))"

subsection \<open>getFramebufferTex\<close>

definition getFramebufferTex :: "uint \<Rightarrow> session \<Rightarrow> stop + GLuint" where
  "getFramebufferTex idx s =
    (case m_pTexture s of
       Some tex \<Rightarrow>
         if m_uiNumTargets s > 0 \<and> idx < m_uiNumTargets s
         then (if unat idx < length tex then Inr (tex ! unat idx) else Inl OutOfBounds)
         else Inr 0
     | None \<Rightarrow> Inr 0)"

subsection \<open>resizeDesktopTexture\<close>

definition resizeDesktopTexture ::
  "driver \<Rightarrow> dopp_procs \<Rightarrow> session \<Rightarrow> stop + (RFStatus \<times> session \<times> call list)" where
  "resizeDesktopTexture env g s =
    (if m_uiDesktopId s > 0 then
       let c1 = [LockAcquire]
                @ (if m_uiDesktopTexture s \<noteq> 0
                   then [GL (GlDeleteTextures 1 [m_uiDesktopTexture s])] else [])
       in
       if \<not> p_wglDesktopTargetAMD g then Inl NullCall
       else if \<not> ret_wglDesktopTargetAMD env (m_uiDesktopId s) then
         Inr (RF_STATUS_INVALID_DESKTOP_ID, s,
              c1 @ [WGL (WglDesktopTargetAMD (m_uiDesktopId s)), LockRelease])
       else if \<not> p_wglGetDesktopTextureAMD g then Inl NullCall
       else
         let s1 = s\<lparr>m_uiDesktopTexture := ret_wglGetDesktopTextureAMD env\<rparr>;
             c2 = c1 @ [WGL (WglDesktopTargetAMD (m_uiDesktopId s)), WGL WglGetDesktopTextureAMD,
                        GL (GlBindTexture (m_uiDesktopTexture s1))]
                     @ tex_filter_calls;
             s2 = s1\<lparr>m_uiDesktopWidth := ret_texture_width env,
                      m_uiDesktopHeight := ret_texture_height env\<rparr>;
             c3 = c2 @ [GL (GlGetTexLevelParameteriv GL_TEXTURE_WIDTH),
                        GL (GlGetTexLevelParameteriv GL_TEXTURE_HEIGHT),
                        GL (GlBindTexture 0), LockRelease]
         in Inr (RF_STATUS_OK, s2, c3)
     else Inr (RF_STATUS_INVALID_DESKTOP_ID, s, []))"

subsection \<open>releaseEvent\<close>

definition releaseEvent :: "session \<Rightarrow> bool \<times> call list" where
  "releaseEvent s =
    (if m_bBlocking s then (True, [SYS (SetEvent (m_hDesktopEvent1 s)), SYS (Sleep 0)])
     else (False, []))"

subsection \<open>initEffect\<close>

definition initEffect :: "driver \<Rightarrow> session \<Rightarrow> bool \<times> session \<times> call list" where
  "initEffect env s =
    (let c0 = (if m_pShader s then [SH DeleteShader] else []) @ [SH NewShader];
         s1 = s\<lparr>m_pShader := ret_newShader env\<rparr>
     in
     if \<not> m_pShader s1 then (False, s1, c0)
     else if \<not> ret_createShaderFromString env GL_VERTEX_SHADER then
       (False, s1, c0 @ [SH (CreateShaderFromString GL_VERTEX_SHADER)])
     else if \<not> ret_createShaderFromString env GL_FRAGMENT_SHADER then
       (False, s1, c0 @ [SH (CreateShaderFromString GL_VERTEX_SHADER),
                         SH (CreateShaderFromString GL_FRAGMENT_SHADER)])
     else if \<not> ret_buildProgram env then
       (False, s1, c0 @ [SH (CreateShaderFromString GL_VERTEX_SHADER),
                         SH (CreateShaderFromString GL_FRAGMENT_SHADER), SH BuildProgram])
     else
       (True, s1\<lparr>m_uiBaseMap := ret_glGetUniformLocation env\<rparr>,
        c0 @ [SH (CreateShaderFromString GL_VERTEX_SHADER),
              SH (CreateShaderFromString GL_FRAGMENT_SHADER), SH BuildProgram,
              SH Bind, SH GetProgram, GL GlGetUniformLocation, SH Unbind]))"

subsection \<open>createQuad\<close>

text \<open>
  The vertex coordinates are single-precision expressions of the angle; only the angle is
  kept, in the \<open>glBufferData\<close> call.
\<close>

definition createQuad :: "driver \<Rightarrow> real \<Rightarrow> session \<Rightarrow> session \<times> call list" where
  "createQuad env fRotation s =
    (let s1 = s\<lparr>m_uiVertexArray := ret_glGenVertexArrays env\<rparr>;
         s2 = s1\<lparr>m_uiVertexBuffer := ret_glGenBuffers env\<rparr>
     in (s2, map VTX
           [GlGenVertexArrays, GlBindVertexArray (m_uiVertexArray s1),
            GlGenBuffers, GlBindBuffer (m_uiVertexBuffer s2),
            GlBufferData fRotation, GlBufferSubData,
            GlEnableVertexAttribArray 0, GlEnableVertexAttribArray 4,
            GlVertexAttribPointer 0, GlVertexAttribPointer 4,
            GlBindBuffer 0, GlBindVertexArray 0]))"

subsection \<open>processDesktop\<close>

text \<open>The block that runs under the global lock.\<close>

definition processDesktop_render ::
  "driver \<Rightarrow> dopp_procs \<Rightarrow> uint \<Rightarrow> session \<Rightarrow> stop + (session \<times> call list)" where
  "processDesktop_render env g idx s =
    (case m_pFBO s of
       None \<Rightarrow> Inl NullDeref
     | Some fbo \<Rightarrow>
         if \<not> unat idx < length fbo then Inl OutOfBounds
         else if \<not> p_wglDesktopTargetAMD g then Inl NullCall
         else if \<not> m_pShader s then Inl NullDeref
         else
           let (x, y, w, h) = ret_viewport env
           in Inr (s\<lparr>m_bDesktopChanged := False\<rparr>,
                [LockAcquire,
                 GL (GlBindFramebuffer (fbo ! unat idx)),
                 GL GlGetViewport,
                 GL (GlViewport 0 0 (sint (m_uiPresentWidth s)) (sint (m_uiPresentHeight s))),
                 WGL (WglDesktopTargetAMD (m_uiDesktopId s)),
                 SH Bind,
                 GL (GlActiveTexture 1),
                 GL (GlBindTexture (m_uiDesktopTexture s)),
                 GL (GlUniform1i (m_uiBaseMap s) 1),
                 VTX (GlBindVertexArray (m_uiVertexArray s)),
                 GL GlDrawArrays,
                 VTX (GlBindVertexArray 0),
                 SH Unbind,
                 GL (GlBindTexture 0),
                 GL (GlActiveTexture 0),
                 GL (GlBindFramebuffer 0),
                 GL (GlViewport x y w h),
                 StoreDesktopChanged False,
                 GL GlFinish,
                 LockRelease]))"

definition processDesktop ::
  "driver \<Rightarrow> dopp_procs \<Rightarrow> uint \<Rightarrow> session \<Rightarrow> stop + (bool \<times> session \<times> call list)" where
  "processDesktop env g idx0 s =
    (let idx = (if idx0 \<ge> m_uiNumTargets s then 0 else idx0);
         render = (\<lambda>c0. case processDesktop_render env g idx s of
                           Inl e \<Rightarrow> Inl e
                         | Inr (s', cs) \<Rightarrow> Inr (True, s', c0 @ cs))
     in
     if m_bTrackDesktopChanges s then
       (if m_bBlocking s then
          (case ret_WaitForMultipleObjects env of
             None \<Rightarrow> Inl BlockedForever
           | Some dwResult \<Rightarrow>
               let c0 = [SYS (WaitForMultipleObjects (m_hDesktopEvent0 s) (m_hDesktopEvent1 s))]
               in if dwResult - WAIT_OBJECT_0 = 1 then Inr (False, s, c0)
                  else render c0)
        else if \<not> m_bDesktopChanged s then Inr (False, s, [])
        else render [])
     else render [])"

subsection \<open>initDOPP\<close>

text \<open>The part of \<open>initDOPP\<close> after \<open>createQuad\<close>: the tracking configuration.\<close>

definition initDOPP_tracking ::
  "driver \<Rightarrow> bool \<Rightarrow> bool \<Rightarrow> session \<Rightarrow> stop + (session \<times> call list)" where
  "initDOPP_tracking env bTrackDesktopChanges bBlocking s =
    (let s1 = s\<lparr>m_bTrackDesktopChanges := bTrackDesktopChanges, m_bBlocking := bBlocking\<rparr>;
         c1 = [StoreTrackDesktopChanges bTrackDesktopChanges];
         (s2, c2) = (if m_bBlocking s1 \<and> \<not> m_bTrackDesktopChanges s1
                     then (s1\<lparr>m_bTrackDesktopChanges := True\<rparr>,
                           c1 @ [StoreTrackDesktopChanges True])
                     else (s1, c1));
         (s3, c3) = (if m_bTrackDesktopChanges s2 then
                       let t = s2\<lparr>m_hDesktopEvent0 := ret_createDOPPEvent env\<rparr>;
                           c = c2 @ [SYS CreateDOPPEvent]
                       in if m_hDesktopEvent0 t = 0
                          then (t\<lparr>m_bTrackDesktopChanges := False\<rparr>,
                                c @ [StoreTrackDesktopChanges False])
                          else (t\<lparr>m_hDesktopEvent1 := ret_CreateEvent env\<rparr>,
                                c @ [SYS CreateEvent])
                     else (s2, c2))
     in
     if m_bTrackDesktopChanges s3 \<and> \<not> m_bBlocking s3 then
       (if m_NotificationThread s3 then Inl Terminate
        else Inr (s3\<lparr>m_NotificationThread := True\<rparr>, c3 @ [SYS ThreadStart]))
     else Inr (s3, c3))"

definition initDOPP ::
  "driver \<Rightarrow> dopp_procs \<Rightarrow> uint \<Rightarrow> uint \<Rightarrow> real \<Rightarrow> bool \<Rightarrow> bool \<Rightarrow> session
     \<Rightarrow> stop + (RFStatus \<times> dopp_procs \<times> session \<times> call list)" where
  "initDOPP env g uiPresentWidth uiPresentHeight fRotation bTrackDesktopChanges bBlocking s =
    (let c0 = [LockAcquire, WGL WglGetCurrentContext] in
     if \<not> ret_wglGetCurrentContext env then
       Inr (RF_STATUS_OPENGL_FAIL, g, s, c0 @ [LockRelease])
     else if uiPresentWidth \<le> 0 \<or> uiPresentHeight \<le> 0 then
       Inr (RF_STATUS_INVALID_DIMENSION, g, s, c0 @ [LockRelease])
     else
       let s1 = s\<lparr>m_uiPresentWidth := uiPresentWidth, m_uiPresentHeight := uiPresentHeight\<rparr>;
           (okExt, g1, cExt) = setupDOPPExtension env g;
           c1 = c0 @ cExt
       in
       if \<not> okExt then Inr (RF_STATUS_DOPP_FAIL, g1, s1, c1 @ [LockRelease])
       else if \<not> ret_wglDesktopTargetAMD env (m_uiDesktopId s1) then
         Inr (RF_STATUS_INVALID_DESKTOP_ID, g1, s1,
              c1 @ [WGL (WglDesktopTargetAMD (m_uiDesktopId s1)), LockRelease])
       else
         let s2 = s1\<lparr>m_uiDesktopTexture := ret_wglGetDesktopTextureAMD env\<rparr>;
             s3 = s2\<lparr>m_uiDesktopWidth := ret_texture_width env,
                      m_uiDesktopHeight := ret_texture_height env\<rparr>;
             c2 = c1 @ [WGL (WglDesktopTargetAMD (m_uiDesktopId s1)), WGL WglGetDesktopTextureAMD,
                        GL (GlBindTexture (m_uiDesktopTexture s2)),
                        GL (GlGetTexLevelParameteriv GL_TEXTURE_WIDTH),
                        GL (GlGetTexLevelParameteriv GL_TEXTURE_HEIGHT)]
                     @ tex_filter_calls @ [GL (GlBindTexture 0)];
             (okFx, s4, cFx) = initEffect env s3
         in
         if \<not> okFx then Inr (RF_STATUS_DOPP_FAIL, g1, s4, c2 @ cFx @ [LockRelease])
         else
           let (okRT, s5, cRT) = createRenderTargets env s4 in
           if \<not> okRT then Inr (RF_STATUS_DOPP_FAIL, g1, s5, c2 @ cFx @ cRT @ [LockRelease])
           else
             let (s6, cQ) = createQuad env fRotation s5 in
             (case initDOPP_tracking env bTrackDesktopChanges bBlocking s6 of
                Inl e \<Rightarrow> Inl e
              | Inr (s7, cT) \<Rightarrow>
                  Inr (RF_STATUS_OK, g1, s7, c2 @ cFx @ cRT @ cQ @ cT @ [LockRelease])))"

subsection \<open>notificationLoop\<close>

text \<open>
  The loop runs on the notification thread while the calling thread goes on, so it is cut
  at its statements: the thread is about to test the loop condition (\<open>AtTest\<close>), has
  found it true and is about to call \<open>WaitForMultipleObjects\<close> (\<open>AtCall\<close>), is
  blocked inside that call (\<open>Blocked\<close>), has come back from it with a result and is
  about to test it (\<open>Returned\<close>), or has left the loop (\<open>Done\<close>).

  The two events are Win32 objects. What the file takes from the Win32 contract:
  a wait on a null or closed handle fails at once with \<open>WAIT_FAILED\<close>; otherwise the
  wait returns the index of the first signaled event, resetting it when it is auto-reset
  (the unblock event is, by \<open>CreateEvent(NULL, FALSE, FALSE, NULL)\<close>; for the driver's
  event both kinds are allowed), and blocks when none is signaled; \<open>SetEvent\<close> releases
  a thread blocked on the event, and leaves the event signaled when no thread is blocked
  on it or when it is manual-reset. Memory is taken to be sequentially consistent.
\<close>

datatype waiter_pos = AtTest | AtCall | Blocked | Returned DWORD | Done

record kernel =
  k_waiter :: waiter_pos                   \<comment> \<open>where the notification thread is\<close>
  k_signaled0 :: bool                      \<comment> \<open>the driver-change event is signaled\<close>
  k_signaled1 :: bool                      \<comment> \<open>the unblock event is signaled\<close>
  k_manual_reset0 :: bool                  \<comment> \<open>the driver-change event is manual-reset\<close>
  k_closed1 :: bool                        \<comment> \<open>the unblock event has been closed\<close>

definition WAIT_FAILED :: DWORD where
  "WAIT_FAILED = 0xFFFFFFFF"

text \<open>\<open>WaitForMultipleObjects(2, m_hDesktopEvent, FALSE, INFINITE)\<close> at the moment of the
  call, with the two handles the array holds then.\<close>

definition kernel_WaitForMultipleObjects :: "kernel \<Rightarrow> HANDLE \<Rightarrow> HANDLE \<Rightarrow> kernel" where
  "kernel_WaitForMultipleObjects k h0 h1 =
    (if h0 = 0 \<or> h1 = 0 \<or> k_closed1 k then k\<lparr>k_waiter := Returned WAIT_FAILED\<rparr>
     else if k_signaled0 k
       then k\<lparr>k_waiter := Returned (WAIT_OBJECT_0 + 0), k_signaled0 := k_manual_reset0 k\<rparr>
     else if k_signaled1 k
       then k\<lparr>k_waiter := Returned (WAIT_OBJECT_0 + 1), k_signaled1 := False\<rparr>
     else k\<lparr>k_waiter := Blocked\<rparr>)"

text \<open>\<open>SetEvent\<close> on the driver-change event, by the destructor or by the driver.\<close>

definition kernel_SetEvent0 :: "kernel \<Rightarrow> kernel" where
  "kernel_SetEvent0 k =
    (if k_waiter k = Blocked
     then k\<lparr>k_waiter := Returned (WAIT_OBJECT_0 + 0), k_signaled0 := k_manual_reset0 k\<rparr>
     else k\<lparr>k_signaled0 := True\<rparr>)"

text \<open>One statement of the loop. A blocked thread makes no step of its own.\<close>

definition notificationLoop_step :: "kernel \<times> session \<Rightarrow> kernel \<times> session" where
  "notificationLoop_step ks =
    (let (k, s) = ks in
     case k_waiter k of
       AtTest \<Rightarrow>
         if m_bTrackDesktopChanges s then (k\<lparr>k_waiter := AtCall\<rparr>, s)
         else (k\<lparr>k_waiter := Done\<rparr>, s)
     | AtCall \<Rightarrow>
         (kernel_WaitForMultipleObjects k (m_hDesktopEvent0 s) (m_hDesktopEvent1 s), s)
     | Blocked \<Rightarrow> (k, s)
     | Returned dwResult \<Rightarrow>
         (k\<lparr>k_waiter := AtTest\<rparr>,
          if dwResult - WAIT_OBJECT_0 = 0 then s\<lparr>m_bDesktopChanged := True\<rparr> else s)
     | Done \<Rightarrow> (k, s))"

text \<open>
  The thread running on its own from where it is, until it leaves the loop; from
  \<open>AtTest\<close> this is the whole of \<open>notificationLoop\<close>. The value is \<open>None\<close> when the
  thread never leaves the loop: it is blocked in the wait with nobody to signal, or it
  goes round for ever.
\<close>

partial_function (option) notificationLoop :: "kernel \<times> session \<Rightarrow> (kernel \<times> session) option" where
  "notificationLoop ks =
    (if k_waiter (fst ks) = Done then Some ks
     else if k_waiter (fst ks) = Blocked then None
     else notificationLoop (notificationLoop_step ks))"

subsection \<open>Destructor\<close>

text \<open>
  The destructor runs on the calling thread while the notification thread, when there is
  one, runs too. Between two statements of the event part of the destructor the other
  side may do anything it can: the notification thread makes steps, the driver signals
  its event. Which of these happen where is the \<open>schedule\<close>, an argument of the model;
  what happened before the event part is in the kernel state and the members the
  destructor starts from. \<open>join\<close> then waits for the notification thread to leave its
  loop, and does not return when it never does.
\<close>

datatype action = WaiterStep | DriverSignal

record schedule =
  after_store :: "action list"             \<comment> \<open>after \<open>m_bTrackDesktopChanges = false\<close>\<close>
  after_SetEvent :: "action list"
  after_Sleep :: "action list"
  after_CloseHandle :: "action list"
  after_null :: "action list"              \<comment> \<open>after \<open>m_hDesktopEvent[1] = NULL\<close>\<close>

definition run_action :: "action \<Rightarrow> kernel \<times> session \<Rightarrow> kernel \<times> session" where
  "run_action a ks =
    (case a of
       WaiterStep \<Rightarrow> if m_NotificationThread (snd ks) then notificationLoop_step ks else ks
     | DriverSignal \<Rightarrow>
         if m_hDesktopEvent0 (snd ks) \<noteq> 0 then (kernel_SetEvent0 (fst ks), snd ks) else ks)"

primrec run_actions :: "action list \<Rightarrow> kernel \<times> session \<Rightarrow> kernel \<times> session" where
  "run_actions [] ks = ks"
| "run_actions (a # as) ks = run_actions as (run_action a ks)"

definition destroy_graphics :: "driver \<Rightarrow> session \<Rightarrow> call list" where
  "destroy_graphics env s =
    (if ret_wglGetCurrentContext env then
       (if m_pShader s then [SH DeleteShader] else [])
       @ (if m_uiDesktopTexture s \<noteq> 0
          then [GL (GlDeleteTextures 1 [m_uiDesktopTexture s])] else [])
       @ (case m_pFBO s of
            Some fbo \<Rightarrow> [GL (GlDeleteFramebuffers (m_uiNumTargets s) fbo)] | None \<Rightarrow> [])
       @ (case m_pTexture s of
            Some tex \<Rightarrow> [GL (GlDeleteTextures (m_uiNumTargets s) tex)] | None \<Rightarrow> [])
       @ (if m_uiVertexBuffer s \<noteq> 0 then [VTX (GlDeleteBuffers (m_uiVertexBuffer s))] else [])
       @ (if m_uiVertexArray s \<noteq> 0
          then [VTX (GlDeleteVertexArrays (m_uiVertexArray s))] else [])
     else [SYS (RF_Error RF_STATUS_OPENGL_FAIL)])"

text \<open>
  The event part, one definition for each statement or \<open>if\<close> block, from
  \<open>m_bTrackDesktopChanges = false\<close> to the end. Each takes and returns the kernel state
  and the members, with the calls it made.
\<close>

definition destroy_store :: "schedule \<Rightarrow> kernel \<times> session \<Rightarrow> (kernel \<times> session) \<times> call list" where
  "destroy_store sch ks =
    (run_actions (after_store sch) (fst ks, (snd ks)\<lparr>m_bTrackDesktopChanges := False\<rparr>),
     [StoreTrackDesktopChanges False])"

definition destroy_signal :: "schedule \<Rightarrow> kernel \<times> session \<Rightarrow> (kernel \<times> session) \<times> call list" where
  "destroy_signal sch ks =
    (if m_hDesktopEvent0 (snd ks) \<noteq> 0 then
       (run_actions (after_Sleep sch)
          (run_actions (after_SetEvent sch) (kernel_SetEvent0 (fst ks), snd ks)),
        [SYS (SetEvent (m_hDesktopEvent0 (snd ks))), SYS (Sleep 0)])
     else (ks, []))"

text \<open>
  Closing the unblock event while the notification thread is blocked on it is undefined
  in Win32; the model leaves the thread blocked, which is the worst case for the
  \<open>join\<close>.
\<close>

definition destroy_close :: "schedule \<Rightarrow> kernel \<times> session \<Rightarrow> (kernel \<times> session) \<times> call list" where
  "destroy_close sch ks =
    (if m_hDesktopEvent1 (snd ks) \<noteq> 0 then
       (let (ka, sa) = run_actions (after_CloseHandle sch) ((fst ks)\<lparr>k_closed1 := True\<rparr>, snd ks)
        in run_actions (after_null sch) (ka, sa\<lparr>m_hDesktopEvent1 := 0\<rparr>),
        [SYS (CloseHandle (m_hDesktopEvent1 (snd ks)))])
     else (ks, []))"

definition destroy_join :: "kernel \<times> session \<Rightarrow> stop + ((kernel \<times> session) \<times> call list)" where
  "destroy_join ks =
    (if m_NotificationThread (snd ks) then
       (case notificationLoop ks of
          None \<Rightarrow> Inl BlockedForever
        | Some (k', s') \<Rightarrow> Inr ((k', s'\<lparr>m_NotificationThread := False\<rparr>), [SYS ThreadJoin]))
     else Inr (ks, []))"

definition destroy_delete :: "kernel \<times> session \<Rightarrow> (kernel \<times> session) \<times> call list" where
  "destroy_delete ks =
    (if m_hDesktopEvent0 (snd ks) \<noteq> 0 then
       ((fst ks, (snd ks)\<lparr>m_hDesktopEvent0 := 0\<rparr>),
        [SYS (DeleteDOPPEvent (m_hDesktopEvent0 (snd ks)))])
     else (ks, []))"

definition destroy_notification ::
  "schedule \<Rightarrow> kernel \<Rightarrow> session \<Rightarrow> stop + (session \<times> kernel \<times> call list)" where
  "destroy_notification sch k s =
    (let (ks1, c1) = destroy_store sch (k, s);
         (ks2, c2) = destroy_signal sch ks1;
         (ks3, c3) = destroy_close sch ks2
     in case destroy_join ks3 of
          Inl e \<Rightarrow> Inl e
        | Inr (ks4, c4) \<Rightarrow>
            let (ks5, c5) = destroy_delete ks4
            in Inr (snd ks5, fst ks5, c1 @ c2 @ c3 @ c4 @ c5))"

definition destroy ::
  "driver \<Rightarrow> dopp_procs \<Rightarrow> schedule \<Rightarrow> kernel \<Rightarrow> session
     \<Rightarrow> stop + (session \<times> kernel \<times> call list)" where
  "destroy env g sch k s =
    (if \<not> p_wglEnablePostProcessAMD g then Inl NullCall
     else
       let c1 = [WGL (WglEnablePostProcessAMD False), WGL WglGetCurrentContext]
                @ destroy_graphics env s;
           s1 = s\<lparr>m_pFBO := None\<rparr>;
           s2 = s1\<lparr>m_pTexture := None\<rparr>
       in case destroy_notification sch k s2 of
            Inl e \<Rightarrow> Inl e
          | Inr (s', k', c2) \<Rightarrow> Inr (s', k', c1 @ c2))"

subsection \<open>Observations and sample inputs\<close>

text \<open>A list of calls contains a composite when it contains the draw call.\<close>

definition composited :: "call list \<Rightarrow> bool" where
  "composited cs = (GL GlDrawArrays \<in> set cs)"

text \<open>
  What \<open>initDOPP\<close> needs from its environment and from the session to get as far as the
  tracking configuration: a current context, positive dimensions, the five entry points,
  a selectable desktop, a shader that builds, no pool yet and complete framebuffers.
\<close>

definition init_prereq :: "driver \<Rightarrow> uint \<Rightarrow> uint \<Rightarrow> session \<Rightarrow> bool" where
  "init_prereq env w h s =
    (ret_wglGetCurrentContext env \<and> w \<noteq> 0 \<and> h \<noteq> 0
     \<and> ret_wglGetProcAddress env ''wglGetDesktopTextureAMD''
     \<and> ret_wglGetProcAddress env ''wglEnablePostProcessAMD''
     \<and> ret_wglGetProcAddress env ''wglPresentTextureToVideoAMD''
     \<and> ret_wglGetProcAddress env ''wglDesktopTargetAMD''
     \<and> ret_wglGetProcAddress env ''wglGenPresentTextureAMD''
     \<and> ret_wglDesktopTargetAMD env (m_uiDesktopId s)
     \<and> ret_newShader env
     \<and> ret_createShaderFromString env GL_VERTEX_SHADER
     \<and> ret_createShaderFromString env GL_FRAGMENT_SHADER
     \<and> ret_buildProgram env
     \<and> m_pFBO s = None \<and> m_pTexture s = None
     \<and> list_all (ret_framebuffer_complete env) [0..<unat (m_uiNumTargets s)])"

text \<open>
  The members as \<open>initDOPP\<close> has set them when it reaches the tracking configuration,
  that is after \<open>createQuad\<close>, on a run in which every step before succeeded.
\<close>

definition after_createQuad :: "driver \<Rightarrow> uint \<Rightarrow> uint \<Rightarrow> session \<Rightarrow> session" where
  "after_createQuad env w h s =
    s\<lparr>m_uiPresentWidth := w, m_uiPresentHeight := h,
      m_uiDesktopTexture := ret_wglGetDesktopTextureAMD env,
      m_uiDesktopWidth := ret_texture_width env,
      m_uiDesktopHeight := ret_texture_height env,
      m_pShader := True, m_uiBaseMap := ret_glGetUniformLocation env,
      m_pFBO := Some (map (ret_glGenFramebuffers env) [0..<unat (m_uiNumTargets s)]),
      m_pTexture := Some (map (ret_glGenTextures env) [0..<unat (m_uiNumTargets s)]),
      m_uiVertexArray := ret_glGenVertexArrays env,
      m_uiVertexBuffer := ret_glGenBuffers env\<rparr>"

text \<open>The calls of the destructor that concern the notification machinery.\<close>

definition notification_call :: "call \<Rightarrow> bool" where
  "notification_call c =
    (case c of
       StoreTrackDesktopChanges _ \<Rightarrow> True
     | SYS y \<Rightarrow> (case y of
                    SetEvent _ \<Rightarrow> True | Sleep _ \<Rightarrow> True | CloseHandle _ \<Rightarrow> True
                  | ThreadJoin \<Rightarrow> True | DeleteDOPPEvent _ \<Rightarrow> True | _ \<Rightarrow> False)
     | _ \<Rightarrow> False)"

text \<open>
  What \<open>processDesktop\<close> dereferences when it composites: the framebuffer array with its
  \<open>m_uiNumTargets\<close> entries, the shader, and the \<open>wglDesktopTargetAMD\<close> entry point.
\<close>

definition can_render :: "dopp_procs \<Rightarrow> session \<Rightarrow> bool" where
  "can_render g s =
    (case m_pFBO s of
       None \<Rightarrow> False
     | Some fbo \<Rightarrow> length fbo = unat (m_uiNumTargets s) \<and> 0 < m_uiNumTargets s
                  \<and> m_pShader s \<and> p_wglDesktopTargetAMD g)"

text \<open>The two arrays are both null, or both allocated with \<open>m_uiNumTargets\<close> entries.\<close>

definition pool_whole :: "session \<Rightarrow> bool" where
  "pool_whole s =
    (case (m_pFBO s, m_pTexture s) of
       (None, None) \<Rightarrow> True
     | (Some fbo, Some tex) \<Rightarrow>
         length fbo = unat (m_uiNumTargets s) \<and> length tex = unat (m_uiNumTargets s)
     | _ \<Rightarrow> False)"

text \<open>
  OpenGL's contract for \<open>glGenTextures\<close>: the \<open>n\<close> names it writes are unused names,
  none of them zero and no two of them equal.
\<close>

definition gen_textures_fresh :: "driver \<Rightarrow> nat \<Rightarrow> bool" where
  "gen_textures_fresh env n =
    (list_all (\<lambda>i. ret_glGenTextures env i \<noteq> 0) [0..<n]
     \<and> distinct (map (ret_glGenTextures env) [0..<n]))"

text \<open>Calls that touch graphics resources only: no event, thread or driver-interface
  call, no store to a shared flag, no release of the lock.\<close>

definition resource_calls :: "call list \<Rightarrow> bool" where
  "resource_calls cs =
    (set cs \<subseteq> insert LockAcquire (range GL \<union> range WGL \<union> range SH \<union> range VTX))"

text \<open>
  The notification thread is on its way out: the liveness flag is cleared, the thread is
  not blocked, and if it is about to call the wait, the wait will return at once.
\<close>

definition waiter_released :: "kernel \<Rightarrow> session \<Rightarrow> bool" where
  "waiter_released k s =
    (\<not> m_bTrackDesktopChanges s \<and> k_waiter k \<noteq> Blocked
     \<and> (k_waiter k = AtCall \<longrightarrow>
          k_signaled0 k \<or> m_hDesktopEvent0 s = 0 \<or> m_hDesktopEvent1 s = 0 \<or> k_closed1 k))"

text \<open>What the notification thread may have done to the members: nothing, or the store
  of true to the changed flag.\<close>

definition waiter_effect :: "session \<Rightarrow> session \<Rightarrow> bool" where
  "waiter_effect s t = (t = s \<or> t = s\<lparr>m_bDesktopChanged := True\<rparr>)"

definition no_procs :: dopp_procs where
  "no_procs = \<lparr> p_wglGetDesktopTextureAMD = False, p_wglEnablePostProcessAMD = False,
                p_wglPresentTextureToVideoAMD = False, p_wglDesktopTargetAMD = False,
                p_wglGenPresentTextureAMD = False \<rparr>"

definition all_procs :: dopp_procs where
  "all_procs = \<lparr> p_wglGetDesktopTextureAMD = True, p_wglEnablePostProcessAMD = True,
                 p_wglPresentTextureToVideoAMD = True, p_wglDesktopTargetAMD = True,
                 p_wglGenPresentTextureAMD = True \<rparr>"

text \<open>A driver on which everything succeeds and every desktop id is selectable.\<close>

definition sample_driver :: driver where
  "sample_driver =
    \<lparr> ret_getDoppState = True, ret_getDoppState_enabled = True,
      ret_wglGetCurrentContext = True,
      ret_wglGetProcAddress = (\<lambda>_. True),
      ret_wglDesktopTargetAMD = (\<lambda>_. True),
      ret_wglGetDesktopTextureAMD = 7,
      ret_texture_width = 1920, ret_texture_height = 1080,
      ret_newShader = True,
      ret_createShaderFromString = (\<lambda>_. True),
      ret_buildProgram = True,
      ret_glGetUniformLocation = 3,
      ret_glGenFramebuffers = (\<lambda>i. of_nat i + 1),
      ret_glGenTextures = (\<lambda>i. of_nat i + 10),
      ret_framebuffer_complete = (\<lambda>_. True),
      ret_glGenVertexArrays = 5, ret_glGenBuffers = 6,
      ret_viewport = (0, 0, 640, 480),
      ret_createDOPPEvent = 100, ret_CreateEvent = 200,
      ret_WaitForMultipleObjects = Some 0 \<rparr>"

text \<open>The same driver with no current context, with framebuffers that fail the
  completeness check, with a desktop that is not selectable, with the unblock event
  signaled, with a change event that cannot be registered.\<close>

definition no_context_driver :: driver where
  "no_context_driver = sample_driver\<lparr>ret_wglGetCurrentContext := False\<rparr>"

definition incomplete_driver :: driver where
  "incomplete_driver = sample_driver\<lparr>ret_framebuffer_complete := (\<lambda>_. False)\<rparr>"

definition unselectable_driver :: driver where
  "unselectable_driver = sample_driver\<lparr>ret_wglDesktopTargetAMD := (\<lambda>_. False)\<rparr>"

definition unblock_driver :: driver where
  "unblock_driver = sample_driver\<lparr>ret_WaitForMultipleObjects := Some 1\<rparr>"

definition no_event_driver :: driver where
  "no_event_driver = sample_driver\<lparr>ret_createDOPPEvent := 0\<rparr>"

text \<open>The notification thread blocked in its wait, no event signaled; a schedule
  with nothing in it; and one in which the thread runs after the destructor's signal and
  the driver signals once more after the close.\<close>

definition blocked_kernel :: kernel where
  "blocked_kernel = \<lparr> k_waiter = Blocked, k_signaled0 = False, k_signaled1 = False,
                      k_manual_reset0 = False, k_closed1 = False \<rparr>"

definition no_schedule :: schedule where
  "no_schedule = \<lparr> after_store = [], after_SetEvent = [], after_Sleep = [],
                    after_CloseHandle = [], after_null = [] \<rparr>"

definition busy_schedule :: schedule where
  "busy_schedule = \<lparr> after_store = [WaiterStep], after_SetEvent = [WaiterStep, WaiterStep],
                      after_Sleep = [], after_CloseHandle = [DriverSignal, WaiterStep],
                      after_null = [WaiterStep] \<rparr>"

text \<open>
  The members after \<open>initDOPP\<close> at 16 by 16 on \<open>sample_driver\<close>, for desktop \<open>d\<close> and
  the given tracking outcome.
\<close>

definition sample_initialised :: "uint \<Rightarrow> bool \<Rightarrow> bool \<Rightarrow> session" where
  "sample_initialised d track blocking =
    \<lparr> m_uiDesktopTexture = 7, m_uiDesktopId = d, m_uiNumTargets = 2,
      m_uiDesktopWidth = 1920, m_uiDesktopHeight = 1080,
      m_uiPresentWidth = 16, m_uiPresentHeight = 16,
      m_pShader = True, m_uiBaseMap = 3,
      m_uiVertexBuffer = 6, m_uiVertexArray = 5,
      m_pFBO = Some [1, 2], m_pTexture = Some [10, 11],
      m_bTrackDesktopChanges = track, m_bBlocking = blocking,
      m_hDesktopEvent0 = (if track then 100 else 0),
      m_hDesktopEvent1 = (if track then 200 else 0),
      m_bDesktopChanged = False,
      m_NotificationThread = (track \<and> \<not> blocking) \<rparr>"

section \<open>Properties\<close>

subsection \<open>The render-target pool\<close>

lemma createRenderTargets_loop_status:
  "fst (createRenderTargets_loop env s fbo tex is acc) =
     (fst acc \<and> list_all (ret_framebuffer_complete env) is)"
  by (induction "is" arbitrary: acc) (auto simp: createRenderTargets_body_def)

lemma createRenderTargets_body_calls:
  "set (snd (createRenderTargets_body env s fbo tex i acc)) \<subseteq> set (snd acc) \<union> range GL"
  by (auto simp: createRenderTargets_body_def tex_filter_calls_def)

lemma createRenderTargets_loop_calls:
  "set (snd (createRenderTargets_loop env s fbo tex is acc)) \<subseteq> set (snd acc) \<union> range GL"
proof (induction "is" arbitrary: acc)
  case Nil
  show ?case by simp
next
  case (Cons i "is")
  have "set (snd (createRenderTargets_loop env s fbo tex is (createRenderTargets_body env s fbo tex i acc)))
          \<subseteq> set (snd (createRenderTargets_body env s fbo tex i acc)) \<union> range GL"
    by (rule Cons.IH)
  also have "\<dots> \<subseteq> set (snd acc) \<union> range GL"
    using createRenderTargets_body_calls [of env s fbo tex i acc] by blast
  finally show ?case by simp
qed

lemma createRenderTargets_exists:
  "m_pFBO s \<noteq> None \<or> m_pTexture s \<noteq> None \<Longrightarrow> createRenderTargets env s = (False, s, [])"
  by (simp add: createRenderTargets_def)

lemma createRenderTargets_build:
  assumes "m_pFBO s = None" "m_pTexture s = None"
  shows "\<exists>cs. createRenderTargets env s =
           (list_all (ret_framebuffer_complete env) [0..<unat (m_uiNumTargets s)],
            s\<lparr>m_pFBO := Some (map (ret_glGenFramebuffers env) [0..<unat (m_uiNumTargets s)]),
              m_pTexture := Some (map (ret_glGenTextures env) [0..<unat (m_uiNumTargets s)])\<rparr>,
            cs) \<and> set cs \<subseteq> range GL"
proof -
  let ?n = "unat (m_uiNumTargets s)"
  let ?fbo = "map (ret_glGenFramebuffers env) [0..<?n]"
  let ?tex = "map (ret_glGenTextures env) [0..<?n]"
  let ?s' = "s\<lparr>m_pFBO := Some ?fbo, m_pTexture := Some ?tex\<rparr>"
  let ?c0 = "[GL (GlGenFramebuffers (m_uiNumTargets s)), GL (GlGenTextures (m_uiNumTargets s))]"
  obtain b c1 where l: "createRenderTargets_loop env ?s' ?fbo ?tex [0..<?n] (True, ?c0) = (b, c1)"
    by (cases "createRenderTargets_loop env ?s' ?fbo ?tex [0..<?n] (True, ?c0)")
  have b: "b = list_all (ret_framebuffer_complete env) [0..<?n]"
    using createRenderTargets_loop_status [of env ?s' ?fbo ?tex "[0..<?n]" "(True, ?c0)"] l by simp
  have c: "set c1 \<subseteq> range GL"
    using createRenderTargets_loop_calls [of env ?s' ?fbo ?tex "[0..<?n]" "(True, ?c0)"] l by auto
  have "createRenderTargets env s = (b, ?s', c1 @ [GL (GlBindTexture 0), GL (GlBindFramebuffer 0)])"
    using assms l by (simp add: createRenderTargets_def Let_def)
  with b c show ?thesis by auto
qed


lemma createRenderTargets_true:
  assumes "fst (createRenderTargets env s)"
  shows "m_pFBO s = None \<and> m_pTexture s = None
    \<and> list_all (ret_framebuffer_complete env) [0..<unat (m_uiNumTargets s)]"
proof -
  have e: "m_pFBO s = None \<and> m_pTexture s = None"
    using assms createRenderTargets_exists [of s env] by (cases "m_pFBO s"; cases "m_pTexture s") auto
  with createRenderTargets_build [of s env] assms show ?thesis by auto
qed


subsection \<open>The steps of initialization\<close>

lemma setupDOPPExtension_resolved:
  assumes "ret_wglGetProcAddress env ''wglGetDesktopTextureAMD''"
    "ret_wglGetProcAddress env ''wglEnablePostProcessAMD''"
    "ret_wglGetProcAddress env ''wglPresentTextureToVideoAMD''"
    "ret_wglGetProcAddress env ''wglDesktopTargetAMD''"
    "ret_wglGetProcAddress env ''wglGenPresentTextureAMD''"
  shows "\<exists>cs. setupDOPPExtension env g = (True, all_procs, cs) \<and> set cs \<subseteq> range WGL"
  using assms by (cases g) (simp add: setupDOPPExtension_def all_procs_def Let_def)

lemma setupDOPPExtension_true:
  assumes "fst (setupDOPPExtension env g)"
  shows "ret_wglGetProcAddress env ''wglGetDesktopTextureAMD''
    \<and> ret_wglGetProcAddress env ''wglEnablePostProcessAMD''
    \<and> ret_wglGetProcAddress env ''wglPresentTextureToVideoAMD''
    \<and> ret_wglGetProcAddress env ''wglDesktopTargetAMD''
    \<and> ret_wglGetProcAddress env ''wglGenPresentTextureAMD''"
  using assms by (simp add: setupDOPPExtension_def Let_def split: if_splits)

lemma initEffect_built:
  assumes "ret_newShader env" "ret_createShaderFromString env GL_VERTEX_SHADER"
    "ret_createShaderFromString env GL_FRAGMENT_SHADER" "ret_buildProgram env"
  shows "\<exists>cs. initEffect env s =
           (True, s\<lparr>m_pShader := True, m_uiBaseMap := ret_glGetUniformLocation env\<rparr>, cs)
         \<and> set cs \<subseteq> range GL \<union> range SH"
  using assms by (auto simp: initEffect_def Let_def)

lemma initEffect_true:
  assumes "fst (initEffect env s)"
  shows "ret_newShader env \<and> ret_createShaderFromString env GL_VERTEX_SHADER
    \<and> ret_createShaderFromString env GL_FRAGMENT_SHADER \<and> ret_buildProgram env"
  using assms by (simp add: initEffect_def Let_def split: if_splits)

lemma initEffect_pool:
  "m_pFBO (fst (snd (initEffect env s))) = m_pFBO s
   \<and> m_pTexture (fst (snd (initEffect env s))) = m_pTexture s
   \<and> m_uiNumTargets (fst (snd (initEffect env s))) = m_uiNumTargets s"
  by (simp add: initEffect_def Let_def)


lemma createQuad_eq:
  "\<exists>cs. createQuad env rot s =
      (s\<lparr>m_uiVertexArray := ret_glGenVertexArrays env, m_uiVertexBuffer := ret_glGenBuffers env\<rparr>, cs)
    \<and> set cs \<subseteq> range VTX"
  by (auto simp: createQuad_def Let_def)

lemma initDOPP_tracking_result:
  assumes "\<not> m_NotificationThread s"
  shows "\<exists>cs. initDOPP_tracking env bT bB s =
      Inr (s\<lparr>m_bTrackDesktopChanges := (bT \<or> bB) \<and> ret_createDOPPEvent env \<noteq> 0,
              m_bBlocking := bB,
              m_hDesktopEvent0 := (if bT \<or> bB then ret_createDOPPEvent env else m_hDesktopEvent0 s),
              m_hDesktopEvent1 := (if (bT \<or> bB) \<and> ret_createDOPPEvent env \<noteq> 0
                                   then ret_CreateEvent env else m_hDesktopEvent1 s),
              m_NotificationThread := (bT \<or> bB) \<and> ret_createDOPPEvent env \<noteq> 0 \<and> \<not> bB\<rparr>, cs)
    \<and> (SYS ThreadStart \<in> set cs \<longleftrightarrow> (bT \<or> bB) \<and> ret_createDOPPEvent env \<noteq> 0 \<and> \<not> bB)
    \<and> (SYS CreateDOPPEvent \<in> set cs \<longleftrightarrow> bT \<or> bB)"
  using assms by (cases s) (auto simp: initDOPP_tracking_def Let_def)

lemma initDOPP_prereq:
  assumes "init_prereq env w h s"
  shows "\<exists>c. resource_calls c \<and>
     initDOPP env g w h rot bT bB s =
       (case initDOPP_tracking env bT bB
               (after_createQuad env w h s) of
          Inl e \<Rightarrow> Inl e
        | Inr (s7, cT) \<Rightarrow> Inr (RF_STATUS_OK, all_procs, s7, c @ cT @ [LockRelease]))"
proof -
  let ?s1 = "s\<lparr>m_uiPresentWidth := w, m_uiPresentHeight := h\<rparr>"
  let ?s3 = "?s1\<lparr>m_uiDesktopTexture := ret_wglGetDesktopTextureAMD env,
                  m_uiDesktopWidth := ret_texture_width env,
                  m_uiDesktopHeight := ret_texture_height env\<rparr>"
  let ?s4 = "?s3\<lparr>m_pShader := True, m_uiBaseMap := ret_glGetUniformLocation env\<rparr>"
  let ?s5 = "?s4\<lparr>m_pFBO := Some (map (ret_glGenFramebuffers env) [0..<unat (m_uiNumTargets ?s4)]),
                  m_pTexture := Some (map (ret_glGenTextures env) [0..<unat (m_uiNumTargets ?s4)])\<rparr>"
  let ?s6 = "?s5\<lparr>m_uiVertexArray := ret_glGenVertexArrays env, m_uiVertexBuffer := ret_glGenBuffers env\<rparr>"
  from assms have ctx: "ret_wglGetCurrentContext env" and dims: "w \<noteq> 0" "h \<noteq> 0"
    and tgt: "ret_wglDesktopTargetAMD env (m_uiDesktopId s)"
    and pool: "m_pFBO s = None" "m_pTexture s = None"
    and compl: "list_all (ret_framebuffer_complete env) [0..<unat (m_uiNumTargets s)]"
    by (simp_all add: init_prereq_def)
  obtain cExt where ext: "setupDOPPExtension env g = (True, all_procs, cExt)" "set cExt \<subseteq> range WGL"
    using setupDOPPExtension_resolved [of env g] assms by (auto simp: init_prereq_def)
  obtain cFx where fx: "initEffect env ?s3 = (True, ?s4, cFx)" "set cFx \<subseteq> range GL \<union> range SH"
    using initEffect_built [of env ?s3] assms by (auto simp: init_prereq_def)
  obtain cRT where rt: "createRenderTargets env ?s4 = (True, ?s5, cRT)" "set cRT \<subseteq> range GL"
    using createRenderTargets_build [of ?s4 env] pool compl by auto
  obtain cQ where q: "createQuad env rot ?s5 = (?s6, cQ)" "set cQ \<subseteq> range VTX"
    using createQuad_eq [of env rot ?s5] by auto
  let ?c2 = "[LockAcquire, WGL WglGetCurrentContext] @ cExt
             @ [WGL (WglDesktopTargetAMD (m_uiDesktopId s)), WGL WglGetDesktopTextureAMD,
                GL (GlBindTexture (ret_wglGetDesktopTextureAMD env)),
                GL (GlGetTexLevelParameteriv GL_TEXTURE_WIDTH),
                GL (GlGetTexLevelParameteriv GL_TEXTURE_HEIGHT)]
             @ tex_filter_calls @ [GL (GlBindTexture 0)]"
  let ?c = "?c2 @ cFx @ cRT @ cQ"
  have rc: "resource_calls ?c"
    using ext(2) fx(2) rt(2) q(2) by (auto simp: resource_calls_def tex_filter_calls_def)
  have "initDOPP env g w h rot bT bB s =
       (case initDOPP_tracking env bT bB ?s6 of
          Inl e \<Rightarrow> Inl e
        | Inr (s7, cT) \<Rightarrow> Inr (RF_STATUS_OK, all_procs, s7, ?c @ cT @ [LockRelease]))"
    using ctx dims tgt ext(1) fx(1) rt(1) q(1)
    by (simp add: initDOPP_def Let_def split: sum.splits)
  moreover have "?s6 = after_createQuad env w h s"
    by (simp add: after_createQuad_def)
  ultimately show ?thesis using rc by metis
qed

lemma initDOPP_OK_prereq:
  assumes "initDOPP env g w h rot bT bB s = Inr (RF_STATUS_OK, g', s', cs)"
  shows "init_prereq env w h s"
proof -
  from assms have ctx: "ret_wglGetCurrentContext env" and dims: "w \<noteq> 0 \<and> h \<noteq> 0"
    by (auto simp: initDOPP_def Let_def split: if_splits)
  let ?s1 = "s\<lparr>m_uiPresentWidth := w, m_uiPresentHeight := h\<rparr>"
  let ?s3 = "?s1\<lparr>m_uiDesktopTexture := ret_wglGetDesktopTextureAMD env,
                  m_uiDesktopWidth := ret_texture_width env,
                  m_uiDesktopHeight := ret_texture_height env\<rparr>"
  from assms ctx dims have ext: "fst (setupDOPPExtension env g)"
    by (auto simp: initDOPP_def Let_def split: if_splits prod.splits)
  from assms ctx dims ext have tgt: "ret_wglDesktopTargetAMD env (m_uiDesktopId s)"
    by (auto simp: initDOPP_def Let_def split: if_splits prod.splits)
  from assms ctx dims ext tgt have fx: "fst (initEffect env ?s3)"
    by (auto simp: initDOPP_def Let_def split: if_splits prod.splits)
  from assms ctx dims ext tgt fx have rt: "fst (createRenderTargets env (fst (snd (initEffect env ?s3))))"
    by (auto simp: initDOPP_def Let_def split: if_splits prod.splits)
  from createRenderTargets_true [OF rt] initEffect_pool [of env ?s3]
  have "m_pFBO s = None \<and> m_pTexture s = None
    \<and> list_all (ret_framebuffer_complete env) [0..<unat (m_uiNumTargets s)]"
    by simp
  with ctx dims tgt setupDOPPExtension_true [OF ext] initEffect_true [OF fx]
  show ?thesis by (simp add: init_prereq_def)
qed


subsection \<open>The cases of processDesktop\<close>

lemma processDesktop_render_ok:
  assumes "can_render g s" "idx < m_uiNumTargets s"
  shows "\<exists>cs. processDesktop_render env g idx s = Inr (s\<lparr>m_bDesktopChanged := False\<rparr>, cs)
           \<and> composited cs"
proof -
  from assms(1) obtain fbo where f: "m_pFBO s = Some fbo" "length fbo = unat (m_uiNumTargets s)"
    "m_pShader s" "p_wglDesktopTargetAMD g"
    by (auto simp: can_render_def split: option.splits)
  from assms(2) f(2) have "unat idx < length fbo" by (simp add: word_less_nat_alt)
  with f show ?thesis
    by (cases "ret_viewport env") (simp add: processDesktop_render_def composited_def)
qed

lemma clamp_in_range:
  "0 < n \<Longrightarrow> (if n \<le> idx then 0 else idx) < (n :: uint)"
  by (simp add: not_le)

lemma processDesktop_composites:
  assumes "can_render g s"
    and "\<not> m_bTrackDesktopChanges s \<or> (\<not> m_bBlocking s \<and> m_bDesktopChanged s)"
  shows "\<exists>cs. processDesktop env g idx s = Inr (True, s\<lparr>m_bDesktopChanged := False\<rparr>, cs)
           \<and> composited cs"
proof -
  let ?i = "if m_uiNumTargets s \<le> idx then 0 else idx"
  from assms(1) have "0 < m_uiNumTargets s" by (auto simp: can_render_def split: option.splits)
  then have "?i < m_uiNumTargets s" by (rule clamp_in_range)
  from processDesktop_render_ok [OF assms(1) this, of env] obtain cs where
    "processDesktop_render env g ?i s = Inr (s\<lparr>m_bDesktopChanged := False\<rparr>, cs)" "composited cs"
    by blast
  with assms(2) show ?thesis by (auto simp: processDesktop_def Let_def)
qed

lemma processDesktop_skips:
  assumes "m_bTrackDesktopChanges s" "\<not> m_bBlocking s" "\<not> m_bDesktopChanged s"
  shows "processDesktop env g idx s = Inr (False, s, [])"
  using assms by (simp add: processDesktop_def Let_def)

lemma processDesktop_blocking:
  assumes "can_render g s" "m_bTrackDesktopChanges s" "m_bBlocking s"
  shows "case ret_WaitForMultipleObjects env of
           None \<Rightarrow> processDesktop env g idx s = Inl BlockedForever
         | Some r \<Rightarrow>
             if r = 1
             then processDesktop env g idx s =
                    Inr (False, s, [SYS (WaitForMultipleObjects (m_hDesktopEvent0 s) (m_hDesktopEvent1 s))])
             else (\<exists>cs. processDesktop env g idx s =
                     Inr (True, s\<lparr>m_bDesktopChanged := False\<rparr>,
                          SYS (WaitForMultipleObjects (m_hDesktopEvent0 s) (m_hDesktopEvent1 s)) # cs)
                   \<and> composited cs)"
proof -
  let ?i = "if m_uiNumTargets s \<le> idx then 0 else idx"
  from assms(1) have "0 < m_uiNumTargets s" by (auto simp: can_render_def split: option.splits)
  then have "?i < m_uiNumTargets s" by (rule clamp_in_range)
  from processDesktop_render_ok [OF assms(1) this, of env] obtain cs where
    "processDesktop_render env g ?i s = Inr (s\<lparr>m_bDesktopChanged := False\<rparr>, cs)" "composited cs"
    by blast
  with assms(2,3) show ?thesis
    by (auto simp: processDesktop_def Let_def WAIT_OBJECT_0_def split: option.splits)
qed

lemma composited_simps:
  "\<not> composited []" "\<not> composited [SYS c]" "composited (SYS c # cs) = composited cs"
  by (auto simp: composited_def)


subsection \<open>What a successful initDOPP leaves\<close>

lemma initDOPP_tracking_keeps:
  assumes "initDOPP_tracking env bT bB s = Inr (s', cs)"
  shows "m_pTexture s' = m_pTexture s \<and> m_pFBO s' = m_pFBO s
       \<and> m_uiNumTargets s' = m_uiNumTargets s \<and> m_pShader s' = m_pShader s
       \<and> m_uiDesktopId s' = m_uiDesktopId s
       \<and> m_uiPresentWidth s' = m_uiPresentWidth s \<and> m_uiPresentHeight s' = m_uiPresentHeight s"
  using assms
  by (cases bT; cases bB; cases "ret_createDOPPEvent env = 0"; cases "m_NotificationThread s")
     (auto simp: initDOPP_tracking_def Let_def)

lemma initDOPP_OK_members:
  assumes "initDOPP env g w h rot bT bB s = Inr (RF_STATUS_OK, g', s', cs)"
  shows "g' = all_procs \<and> m_uiNumTargets s' = m_uiNumTargets s
       \<and> m_uiDesktopId s' = m_uiDesktopId s
       \<and> m_pFBO s' = Some (map (ret_glGenFramebuffers env) [0..<unat (m_uiNumTargets s)])
       \<and> m_pTexture s' = Some (map (ret_glGenTextures env) [0..<unat (m_uiNumTargets s)])
       \<and> m_pShader s' \<and> m_uiPresentWidth s' = w \<and> m_uiPresentHeight s' = h
       \<and> w \<noteq> 0 \<and> h \<noteq> 0"
proof -
  have p: "init_prereq env w h s" using assms by (rule initDOPP_OK_prereq)
  from initDOPP_prereq [OF p, of g rot bT bB] obtain c where
    i: "initDOPP env g w h rot bT bB s =
         (case initDOPP_tracking env bT bB (after_createQuad env w h s) of
            Inl e \<Rightarrow> Inl e
          | Inr (s7, cT) \<Rightarrow> Inr (RF_STATUS_OK, all_procs, s7, c @ cT @ [LockRelease]))"
    by blast
  show ?thesis
  proof (cases "initDOPP_tracking env bT bB (after_createQuad env w h s)")
    case (Inl e)
    with i assms show ?thesis by simp
  next
    case (Inr r)
    obtain s7 cT where r: "r = (s7, cT)" by (cases r)
    from Inr r i assms have e: "g' = all_procs" "s' = s7" by simp_all
    from Inr r have "initDOPP_tracking env bT bB (after_createQuad env w h s) = Inr (s7, cT)"
      by simp
    from initDOPP_tracking_keeps [OF this] e p show ?thesis
      by (simp add: after_createQuad_def init_prereq_def)
  qed
qed


subsection \<open>Reading a pool slot\<close>

lemma getFramebufferTex_slot:
  assumes "m_pTexture s = Some (map f [0..<unat (m_uiNumTargets s)])" "i < m_uiNumTargets s"
  shows "getFramebufferTex i s = Inr (f (unat i))"
proof -
  from assms(2) have "unat i < unat (m_uiNumTargets s)" by (simp add: word_less_nat_alt)
  moreover from this have "0 < m_uiNumTargets s" by (simp add: word_less_nat_alt)
  ultimately show ?thesis using assms by (simp add: getFramebufferTex_def)
qed

lemma getFramebufferTex_outside:
  "\<not> i < m_uiNumTargets s \<Longrightarrow> getFramebufferTex i s = Inr 0"
  by (simp add: getFramebufferTex_def split: option.splits)

lemma getFramebufferTex_no_pool:
  "m_pTexture s = None \<Longrightarrow> getFramebufferTex i s = Inr 0"
  by (simp add: getFramebufferTex_def)

subsection \<open>The sample driver\<close>

lemma upt_0_2: "[0..<2] = [0, Suc 0]"
  by (simp add: numeral_2_eq_2)

lemma init_prereq_sample: "init_prereq sample_driver 16 16 (member_init d)"
  by (simp add: init_prereq_def sample_driver_def member_init_def upt_0_2)

lemma initDOPP_sample:
  "\<exists>cs. initDOPP sample_driver no_procs 16 16 0 bT bB (member_init d) =
          Inr (RF_STATUS_OK, all_procs, sample_initialised d (bT \<or> bB) bB, cs)"
proof -
  let ?s6 = "after_createQuad sample_driver 16 16 (member_init d)"
  let ?s7 = "?s6\<lparr>m_bTrackDesktopChanges := (bT \<or> bB) \<and> ret_createDOPPEvent sample_driver \<noteq> 0,
              m_bBlocking := bB,
              m_hDesktopEvent0 := (if bT \<or> bB then ret_createDOPPEvent sample_driver
                                   else m_hDesktopEvent0 ?s6),
              m_hDesktopEvent1 := (if (bT \<or> bB) \<and> ret_createDOPPEvent sample_driver \<noteq> 0
                                   then ret_CreateEvent sample_driver else m_hDesktopEvent1 ?s6),
              m_NotificationThread := (bT \<or> bB) \<and> ret_createDOPPEvent sample_driver \<noteq> 0 \<and> \<not> bB\<rparr>"
  have nt: "\<not> m_NotificationThread ?s6"
    by (simp add: after_createQuad_def member_init_def)
  from initDOPP_tracking_result [OF nt, of sample_driver bT bB] obtain cT where
    t: "initDOPP_tracking sample_driver bT bB ?s6 = Inr (?s7, cT)"
    by blast
  have e: "?s7 = sample_initialised d (bT \<or> bB) bB"
    by (simp add: after_createQuad_def member_init_def sample_initialised_def sample_driver_def
        upt_0_2)
  from initDOPP_prereq [OF init_prereq_sample, of no_procs 0 bT bB d] t e
  show ?thesis by auto
qed

subsection \<open>Initialization as a whole\<close>

lemma can_render_after_initDOPP:
  assumes "initDOPP env g w h rot bT bB s = Inr (RF_STATUS_OK, g', s', cs)"
    and "0 < m_uiNumTargets s"
  shows "can_render all_procs s'"
  using initDOPP_OK_members [OF assms(1)] assms(2)
  by (simp add: can_render_def all_procs_def)

lemma resource_calls_no_sys: "resource_calls c \<Longrightarrow> SYS x \<notin> set c"
  by (auto simp: resource_calls_def)

lemma init_prereq_no_event: "init_prereq no_event_driver 16 16 (member_init d)"
  by (simp add: init_prereq_def no_event_driver_def sample_driver_def member_init_def upt_0_2)

lemma GLDOPPCapture_members:
  "GLDOPPCapture env d pDrv = Inr (s, cs) \<Longrightarrow> s = member_init d"
  by (auto simp: GLDOPPCapture_def split: if_splits)

lemma resizeDesktopTexture_id_zero:
  "m_uiDesktopId s = 0 \<Longrightarrow>
     resizeDesktopTexture env g s = Inr (RF_STATUS_INVALID_DESKTOP_ID, s, [])"
  by (simp add: resizeDesktopTexture_def)

subsection \<open>Rebuilding the pool\<close>

lemma createRenderTargets_members:
  assumes "m_pFBO s = None" "m_pTexture s = None"
  shows "fst (createRenderTargets env s) =
           list_all (ret_framebuffer_complete env) [0..<unat (m_uiNumTargets s)]"
    and "fst (snd (createRenderTargets env s)) =
           s\<lparr>m_pFBO := Some (map (ret_glGenFramebuffers env) [0..<unat (m_uiNumTargets s)]),
             m_pTexture := Some (map (ret_glGenTextures env) [0..<unat (m_uiNumTargets s)])\<rparr>"
  using createRenderTargets_build [OF assms, of env] by auto

lemma pool_update_idem:
  "m_pTexture s = None \<Longrightarrow> s\<lparr>m_pTexture := None\<rparr> = s"
  "m_pFBO s = None \<Longrightarrow> s\<lparr>m_pFBO := None\<rparr> = s"
  by (cases s, simp)+

lemma resizePresentTexture_members:
  "fst (resizePresentTexture env w h s) =
     (if list_all (ret_framebuffer_complete env) [0..<unat (m_uiNumTargets s)]
      then RF_STATUS_OK else RF_STATUS_OPENGL_FAIL)"
  "fst (snd (resizePresentTexture env w h s)) =
     s\<lparr>m_pTexture := Some (map (ret_glGenTextures env) [0..<unat (m_uiNumTargets s)]),
       m_pFBO := Some (map (ret_glGenFramebuffers env) [0..<unat (m_uiNumTargets s)]),
       m_uiPresentWidth := w, m_uiPresentHeight := h\<rparr>"
proof -
  let ?s3 = "s\<lparr>m_pTexture := None, m_pFBO := None, m_uiPresentWidth := w, m_uiPresentHeight := h\<rparr>"
  have n: "m_pFBO ?s3 = None" "m_pTexture ?s3 = None" by simp_all
  obtain ok s4 c3 where c: "createRenderTargets env ?s3 = (ok, s4, c3)"
    by (cases "createRenderTargets env ?s3") auto
  from createRenderTargets_members [OF n, of env] c
  have ok: "ok = list_all (ret_framebuffer_complete env) [0..<unat (m_uiNumTargets s)]"
    and s4: "s4 = s\<lparr>m_pTexture := Some (map (ret_glGenTextures env) [0..<unat (m_uiNumTargets s)]),
       m_pFBO := Some (map (ret_glGenFramebuffers env) [0..<unat (m_uiNumTargets s)]),
       m_uiPresentWidth := w, m_uiPresentHeight := h\<rparr>"
    by simp_all
  have r: "resizePresentTexture env w h s =
     (if \<not> ok then RF_STATUS_OPENGL_FAIL else RF_STATUS_OK, s4,
      (case m_pTexture s of Some tex \<Rightarrow> [GL (GlDeleteTextures (m_uiNumTargets s) tex)] | None \<Rightarrow> [])
      @ (case m_pFBO s of Some fbo \<Rightarrow> [GL (GlDeleteFramebuffers (m_uiNumTargets s) fbo)] | None \<Rightarrow> [])
      @ c3)"
    using c
    by (cases "m_pTexture s"; cases "m_pFBO s")
       (simp_all add: resizePresentTexture_def pool_update_idem)
  show "fst (resizePresentTexture env w h s) =
     (if list_all (ret_framebuffer_complete env) [0..<unat (m_uiNumTargets s)]
      then RF_STATUS_OK else RF_STATUS_OPENGL_FAIL)"
    using r ok by simp
  show "fst (snd (resizePresentTexture env w h s)) =
     s\<lparr>m_pTexture := Some (map (ret_glGenTextures env) [0..<unat (m_uiNumTargets s)]),
       m_pFBO := Some (map (ret_glGenFramebuffers env) [0..<unat (m_uiNumTargets s)]),
       m_uiPresentWidth := w, m_uiPresentHeight := h\<rparr>"
    using r s4 by simp
qed

subsection \<open>The present size\<close>

text \<open>
  \<open>initDOPP\<close> leaves positive present dimensions, \<open>processDesktop\<close> and
  \<open>resizeDesktopTexture\<close> keep them, and \<open>resizePresentTexture\<close> replaces them by
  its arguments, whatever they are.
\<close>

lemma processDesktop_present_size:
  assumes "processDesktop env g idx s = Inr (b, s', cs)"
  shows "m_uiPresentWidth s' = m_uiPresentWidth s \<and> m_uiPresentHeight s' = m_uiPresentHeight s"
  using assms
  by (auto simp: processDesktop_def processDesktop_render_def Let_def
      split: if_splits option.splits sum.splits prod.splits)

lemma resizeDesktopTexture_present_size:
  assumes "resizeDesktopTexture env g s = Inr (st, s', cs)"
  shows "m_uiPresentWidth s' = m_uiPresentWidth s \<and> m_uiPresentHeight s' = m_uiPresentHeight s"
  using assms by (auto simp: resizeDesktopTexture_def Let_def split: if_splits)

lemma initDOPP_present_size:
  assumes "initDOPP env g w h rot bT bB s = Inr (RF_STATUS_OK, g', s', cs)"
  shows "0 < m_uiPresentWidth s' \<and> 0 < m_uiPresentHeight s'"
  using initDOPP_OK_members [OF assms] by (simp add: word_neq_0_conv)

lemma resizePresentTexture_present_size:
  "m_uiPresentWidth (fst (snd (resizePresentTexture env w h s))) = w
   \<and> m_uiPresentHeight (fst (snd (resizePresentTexture env w h s))) = h"
  by (simp add: resizePresentTexture_members)

subsection \<open>The notification thread on its way out\<close>

lemma waiter_effect_refl: "waiter_effect s s"
  by (simp add: waiter_effect_def)

lemma waiter_effect_trans: "waiter_effect s t \<Longrightarrow> waiter_effect t u \<Longrightarrow> waiter_effect s u"
  by (auto simp: waiter_effect_def)

lemma waiter_effect_members:
  assumes "waiter_effect s t"
  shows "m_bTrackDesktopChanges t = m_bTrackDesktopChanges s"
    "m_hDesktopEvent0 t = m_hDesktopEvent0 s" "m_hDesktopEvent1 t = m_hDesktopEvent1 s"
    "m_NotificationThread t = m_NotificationThread s"
  using assms by (auto simp: waiter_effect_def)

lemma notificationLoop_step_effect: "waiter_effect s (snd (notificationLoop_step (k, s)))"
  by (cases "k_waiter k") (simp_all add: notificationLoop_step_def waiter_effect_def)

lemma run_action_effect: "waiter_effect s (snd (run_action a (k, s)))"
  using notificationLoop_step_effect [of s k]
  by (cases a) (simp_all add: run_action_def waiter_effect_refl)

lemma run_actions_effect: "waiter_effect s (snd (run_actions as (k, s)))"
proof (induction as arbitrary: k s)
  case Nil
  show ?case by (simp add: waiter_effect_refl)
next
  case (Cons a as)
  obtain k' s' where r: "run_action a (k, s) = (k', s')" by (cases "run_action a (k, s)")
  with run_action_effect [of s a k] have "waiter_effect s s'" by simp
  moreover from Cons.IH [where k = k' and s = s']
  have "waiter_effect s' (snd (run_actions as (k', s')))" .
  ultimately show ?case using r by (simp add: waiter_effect_trans)
qed

lemma waiter_released_effect:
  "waiter_released k s \<Longrightarrow> waiter_effect s t \<Longrightarrow> waiter_released k t"
  by (auto simp: waiter_released_def waiter_effect_def)

lemma notificationLoop_step_released:
  assumes "waiter_released k s"
  shows "waiter_released (fst (notificationLoop_step (k, s))) (snd (notificationLoop_step (k, s)))"
  using assms
  by (cases "k_waiter k")
     (auto simp: notificationLoop_step_def waiter_released_def kernel_WaitForMultipleObjects_def)

lemma kernel_SetEvent0_released:
  "\<not> m_bTrackDesktopChanges s \<Longrightarrow> waiter_released (kernel_SetEvent0 k) s"
  by (simp add: waiter_released_def kernel_SetEvent0_def)

lemma run_action_released:
  assumes "waiter_released k s"
  shows "waiter_released (fst (run_action a (k, s))) (snd (run_action a (k, s)))"
proof (cases a)
  case WaiterStep
  with assms notificationLoop_step_released [OF assms] show ?thesis
    by (simp add: run_action_def)
next
  case DriverSignal
  from assms have "\<not> m_bTrackDesktopChanges s" by (simp add: waiter_released_def)
  from kernel_SetEvent0_released [OF this, of k] DriverSignal assms show ?thesis
    by (simp add: run_action_def)
qed

lemma run_actions_released:
  "waiter_released k s \<Longrightarrow>
     waiter_released (fst (run_actions as (k, s))) (snd (run_actions as (k, s)))"
proof (induction as arbitrary: k s)
  case Nil
  then show ?case by simp
next
  case (Cons a as)
  obtain k' s' where r: "run_action a (k, s) = (k', s')" by (cases "run_action a (k, s)")
  with run_action_released [OF Cons.prems, of a] have "waiter_released k' s'" by simp
  from Cons.IH [OF this] r show ?case by simp
qed

lemma waiter_released_close:
  "waiter_released k s \<Longrightarrow> waiter_released (k\<lparr>k_closed1 := True\<rparr>) s"
  "waiter_released k s \<Longrightarrow> waiter_released k (s\<lparr>m_hDesktopEvent1 := 0\<rparr>)"
  by (simp_all add: waiter_released_def)

lemma notificationLoop_Done:
  "k_waiter k = Done \<Longrightarrow> notificationLoop (k, s) = Some (k, s)"
  by (subst notificationLoop.simps) simp

lemma notificationLoop_Blocked:
  "k_waiter k = Blocked \<Longrightarrow> notificationLoop (k, s) = None"
  by (subst notificationLoop.simps) simp

lemma notificationLoop_unfold:
  "k_waiter k \<noteq> Done \<Longrightarrow> k_waiter k \<noteq> Blocked \<Longrightarrow>
     notificationLoop (k, s) = notificationLoop (notificationLoop_step (k, s))"
  by (subst notificationLoop.simps) simp

lemma notificationLoop_AtTest:
  assumes "k_waiter k = AtTest" "\<not> m_bTrackDesktopChanges s"
  shows "notificationLoop (k, s) = Some (k\<lparr>k_waiter := Done\<rparr>, s)"
proof -
  have "notificationLoop (k, s) = notificationLoop (k\<lparr>k_waiter := Done\<rparr>, s)"
    using assms by (simp add: notificationLoop_unfold notificationLoop_step_def)
  then show ?thesis by (simp add: notificationLoop_Done)
qed

lemma notificationLoop_Returned:
  assumes "k_waiter k = Returned r" "\<not> m_bTrackDesktopChanges s"
  shows "notificationLoop (k, s) =
           Some (k\<lparr>k_waiter := Done\<rparr>,
                 if r - WAIT_OBJECT_0 = 0 then s\<lparr>m_bDesktopChanged := True\<rparr> else s)"
proof -
  let ?t = "if r - WAIT_OBJECT_0 = 0 then s\<lparr>m_bDesktopChanged := True\<rparr> else s"
  have "notificationLoop (k, s) = notificationLoop (k\<lparr>k_waiter := AtTest\<rparr>, ?t)"
    using assms by (simp add: notificationLoop_unfold notificationLoop_step_def)
  moreover have "notificationLoop (k\<lparr>k_waiter := AtTest\<rparr>, ?t)
                   = Some (k\<lparr>k_waiter := AtTest\<rparr>\<lparr>k_waiter := Done\<rparr>, ?t)"
    using assms(2) by (intro notificationLoop_AtTest) simp_all
  ultimately show ?thesis by simp
qed

lemma notificationLoop_released:
  assumes "waiter_released k s"
  shows "\<exists>k' s'. notificationLoop (k, s) = Some (k', s') \<and> k_waiter k' = Done
           \<and> waiter_effect s s'"
proof -
  from assms have nf: "\<not> m_bTrackDesktopChanges s" and nb: "k_waiter k \<noteq> Blocked"
    by (simp_all add: waiter_released_def)
  show ?thesis
  proof (cases "k_waiter k")
    case AtTest
    from notificationLoop_AtTest [OF this nf] show ?thesis
      by (simp add: waiter_effect_def)
  next
    case AtCall
    let ?k = "kernel_WaitForMultipleObjects k (m_hDesktopEvent0 s) (m_hDesktopEvent1 s)"
    from AtCall assms have "\<exists>r. k_waiter ?k = Returned r"
      by (auto simp: waiter_released_def kernel_WaitForMultipleObjects_def)
    then obtain r where r: "k_waiter ?k = Returned r" ..
    have "notificationLoop (k, s) = notificationLoop (?k, s)"
      using AtCall by (simp add: notificationLoop_unfold notificationLoop_step_def)
    with notificationLoop_Returned [OF r nf] show ?thesis
      by (simp add: waiter_effect_def)
  next
    case Blocked
    with nb show ?thesis by simp
  next
    case (Returned r)
    from notificationLoop_Returned [OF this nf] show ?thesis
      by (simp add: waiter_effect_def)
  next
    case Done
    from notificationLoop_Done [OF this, of s] Done show ?thesis
      by (simp add: waiter_effect_def)
  qed
qed

subsection \<open>The event part of the destructor\<close>

lemma run_actions_result:
  "\<exists>k' s'. run_actions as (k, s) = (k', s') \<and> waiter_effect s s'
     \<and> (waiter_released k s \<longrightarrow> waiter_released k' s')"
proof -
  obtain k' s' where r: "run_actions as (k, s) = (k', s')" by (cases "run_actions as (k, s)")
  from run_actions_effect [of s as k] r have e: "waiter_effect s s'" by simp
  from run_actions_released [of k s as] r
  have "waiter_released k s \<longrightarrow> waiter_released k' s'" by simp
  with r e show ?thesis by blast
qed

lemma destroy_store_result:
  "\<exists>k1 s1. destroy_store sch (k, s) = ((k1, s1), [StoreTrackDesktopChanges False])
     \<and> \<not> m_bTrackDesktopChanges s1
     \<and> m_hDesktopEvent0 s1 = m_hDesktopEvent0 s \<and> m_hDesktopEvent1 s1 = m_hDesktopEvent1 s
     \<and> m_NotificationThread s1 = m_NotificationThread s"
proof -
  from run_actions_result [of "after_store sch" k "s\<lparr>m_bTrackDesktopChanges := False\<rparr>"]
  obtain k1 s1 where
    r: "run_actions (after_store sch) (k, s\<lparr>m_bTrackDesktopChanges := False\<rparr>) = (k1, s1)"
    and e: "waiter_effect (s\<lparr>m_bTrackDesktopChanges := False\<rparr>) s1"
    by blast
  from waiter_effect_members [OF e] r show ?thesis by (simp add: destroy_store_def)
qed

lemma destroy_signal_result:
  assumes "\<not> m_bTrackDesktopChanges s"
  shows "\<exists>k2 s2. destroy_signal sch (k, s) =
           ((k2, s2), if m_hDesktopEvent0 s \<noteq> 0
                      then [SYS (SetEvent (m_hDesktopEvent0 s)), SYS (Sleep 0)] else [])
     \<and> \<not> m_bTrackDesktopChanges s2
     \<and> m_hDesktopEvent0 s2 = m_hDesktopEvent0 s \<and> m_hDesktopEvent1 s2 = m_hDesktopEvent1 s
     \<and> m_NotificationThread s2 = m_NotificationThread s
     \<and> (m_hDesktopEvent0 s \<noteq> 0 \<longrightarrow> waiter_released k2 s2)"
proof (cases "m_hDesktopEvent0 s = 0")
  case True
  with assms show ?thesis by (simp add: destroy_signal_def)
next
  case False
  have r0: "waiter_released (kernel_SetEvent0 k) s"
    using assms by (rule kernel_SetEvent0_released)
  from run_actions_result [of "after_SetEvent sch" "kernel_SetEvent0 k" s] r0
  obtain ka sa where a: "run_actions (after_SetEvent sch) (kernel_SetEvent0 k, s) = (ka, sa)"
    and ea: "waiter_effect s sa" and ra: "waiter_released ka sa"
    by blast
  from run_actions_result [of "after_Sleep sch" ka sa] ra
  obtain kb sb where b: "run_actions (after_Sleep sch) (ka, sa) = (kb, sb)"
    and eb: "waiter_effect sa sb" and rb: "waiter_released kb sb"
    by blast
  from waiter_effect_members [OF waiter_effect_trans [OF ea eb]] assms False a b rb
  show ?thesis by (simp add: destroy_signal_def)
qed

lemma destroy_close_result:
  assumes "\<not> m_bTrackDesktopChanges s"
  shows "\<exists>k3 s3. destroy_close sch (k, s) =
           ((k3, s3), if m_hDesktopEvent1 s \<noteq> 0
                      then [SYS (CloseHandle (m_hDesktopEvent1 s))] else [])
     \<and> \<not> m_bTrackDesktopChanges s3
     \<and> m_hDesktopEvent0 s3 = m_hDesktopEvent0 s \<and> m_hDesktopEvent1 s3 = 0
     \<and> m_NotificationThread s3 = m_NotificationThread s
     \<and> (waiter_released k s \<longrightarrow> waiter_released k3 s3)"
proof (cases "m_hDesktopEvent1 s = 0")
  case True
  with assms show ?thesis by (simp add: destroy_close_def)
next
  case False
  from run_actions_result [of "after_CloseHandle sch" "k\<lparr>k_closed1 := True\<rparr>" s]
  obtain ka sa where a: "run_actions (after_CloseHandle sch) (k\<lparr>k_closed1 := True\<rparr>, s) = (ka, sa)"
    and ea: "waiter_effect s sa"
    and ra: "waiter_released (k\<lparr>k_closed1 := True\<rparr>) s \<longrightarrow> waiter_released ka sa"
    by blast
  from run_actions_result [of "after_null sch" ka "sa\<lparr>m_hDesktopEvent1 := 0\<rparr>"]
  obtain kb sb where b: "run_actions (after_null sch) (ka, sa\<lparr>m_hDesktopEvent1 := 0\<rparr>) = (kb, sb)"
    and eb: "waiter_effect (sa\<lparr>m_hDesktopEvent1 := 0\<rparr>) sb"
    and rb: "waiter_released ka (sa\<lparr>m_hDesktopEvent1 := 0\<rparr>) \<longrightarrow> waiter_released kb sb"
    by blast
  have rel: "waiter_released k s \<longrightarrow> waiter_released kb sb"
    using ra rb waiter_released_close by blast
  from waiter_effect_members [OF ea] waiter_effect_members [OF eb] assms False a b rel
  show ?thesis by (simp add: destroy_close_def)
qed

lemma destroy_join_result:
  assumes "m_NotificationThread s \<longrightarrow> waiter_released k s"
  shows "\<exists>k4 s4. destroy_join (k, s) =
           Inr ((k4, s4), if m_NotificationThread s then [SYS ThreadJoin] else [])
     \<and> m_bTrackDesktopChanges s4 = m_bTrackDesktopChanges s
     \<and> m_hDesktopEvent0 s4 = m_hDesktopEvent0 s \<and> m_hDesktopEvent1 s4 = m_hDesktopEvent1 s
     \<and> \<not> m_NotificationThread s4
     \<and> (m_NotificationThread s \<longrightarrow> k_waiter k4 = Done)"
proof (cases "m_NotificationThread s")
  case False
  then show ?thesis by (simp add: destroy_join_def)
next
  case True
  with assms have "waiter_released k s" by blast
  from notificationLoop_released [OF this] obtain k' s' where
    l: "notificationLoop (k, s) = Some (k', s')" and d: "k_waiter k' = Done"
    and e: "waiter_effect s s'"
    by blast
  from waiter_effect_members [OF e] True l d show ?thesis by (simp add: destroy_join_def)
qed

lemma destroy_notification_returns:
  assumes "m_NotificationThread s \<longrightarrow> m_hDesktopEvent0 s \<noteq> 0"
  shows "\<exists>s' k'. destroy_notification sch k s =
           Inr (s', k',
                [StoreTrackDesktopChanges False]
                @ (if m_hDesktopEvent0 s \<noteq> 0
                   then [SYS (SetEvent (m_hDesktopEvent0 s)), SYS (Sleep 0)] else [])
                @ (if m_hDesktopEvent1 s \<noteq> 0
                   then [SYS (CloseHandle (m_hDesktopEvent1 s))] else [])
                @ (if m_NotificationThread s then [SYS ThreadJoin] else [])
                @ (if m_hDesktopEvent0 s \<noteq> 0
                   then [SYS (DeleteDOPPEvent (m_hDesktopEvent0 s))] else []))
     \<and> \<not> m_bTrackDesktopChanges s' \<and> m_hDesktopEvent0 s' = 0 \<and> m_hDesktopEvent1 s' = 0
     \<and> \<not> m_NotificationThread s'
     \<and> (m_NotificationThread s \<longrightarrow> k_waiter k' = Done)"
proof -
  from destroy_store_result [of sch k s] obtain k1 s1 where
    d1: "destroy_store sch (k, s) = ((k1, s1), [StoreTrackDesktopChanges False])"
    and f1: "\<not> m_bTrackDesktopChanges s1" "m_hDesktopEvent0 s1 = m_hDesktopEvent0 s"
      "m_hDesktopEvent1 s1 = m_hDesktopEvent1 s" "m_NotificationThread s1 = m_NotificationThread s"
    by blast
  from destroy_signal_result [OF f1(1), of sch k1] obtain k2 s2 where
    d2: "destroy_signal sch (k1, s1) =
           ((k2, s2), if m_hDesktopEvent0 s1 \<noteq> 0
                      then [SYS (SetEvent (m_hDesktopEvent0 s1)), SYS (Sleep 0)] else [])"
    and f2: "\<not> m_bTrackDesktopChanges s2" "m_hDesktopEvent0 s2 = m_hDesktopEvent0 s1"
      "m_hDesktopEvent1 s2 = m_hDesktopEvent1 s1" "m_NotificationThread s2 = m_NotificationThread s1"
    and r2: "m_hDesktopEvent0 s1 \<noteq> 0 \<longrightarrow> waiter_released k2 s2"
    by blast
  from destroy_close_result [OF f2(1), of sch k2] obtain k3 s3 where
    d3: "destroy_close sch (k2, s2) =
           ((k3, s3), if m_hDesktopEvent1 s2 \<noteq> 0
                      then [SYS (CloseHandle (m_hDesktopEvent1 s2))] else [])"
    and f3: "\<not> m_bTrackDesktopChanges s3" "m_hDesktopEvent0 s3 = m_hDesktopEvent0 s2"
      "m_hDesktopEvent1 s3 = 0" "m_NotificationThread s3 = m_NotificationThread s2"
    and r3: "waiter_released k2 s2 \<longrightarrow> waiter_released k3 s3"
    by blast
  have "m_NotificationThread s3 \<longrightarrow> waiter_released k3 s3"
    using assms f1 f2 f3 r2 r3 by simp
  from destroy_join_result [OF this] obtain k4 s4 where
    d4: "destroy_join (k3, s3) =
           Inr ((k4, s4), if m_NotificationThread s3 then [SYS ThreadJoin] else [])"
    and f4: "m_bTrackDesktopChanges s4 = m_bTrackDesktopChanges s3"
      "m_hDesktopEvent0 s4 = m_hDesktopEvent0 s3" "m_hDesktopEvent1 s4 = m_hDesktopEvent1 s3"
      "\<not> m_NotificationThread s4"
    and w4: "m_NotificationThread s3 \<longrightarrow> k_waiter k4 = Done"
    by blast
  show ?thesis
    using d1 d2 d3 d4 f1 f2 f3 f4 w4
    by (simp add: destroy_notification_def destroy_delete_def)
qed

lemma destroy_graphics_quiet: "\<not> list_ex notification_call (destroy_graphics env s)"
  by (simp add: destroy_graphics_def notification_call_def split: option.splits)

lemma destroy_graphics_blocking:
  "destroy_graphics env (s\<lparr>m_bBlocking := b\<rparr>) = destroy_graphics env s"
  by (simp add: destroy_graphics_def split: option.splits)

lemma destroy_returns:
  assumes "p_wglEnablePostProcessAMD g"
    and "m_NotificationThread s \<longrightarrow> m_hDesktopEvent0 s \<noteq> 0"
  shows "\<exists>s' k'. destroy env g sch k s =
           Inr (s', k',
                ([WGL (WglEnablePostProcessAMD False), WGL WglGetCurrentContext]
                 @ destroy_graphics env s)
                @ [StoreTrackDesktopChanges False]
                @ (if m_hDesktopEvent0 s \<noteq> 0
                   then [SYS (SetEvent (m_hDesktopEvent0 s)), SYS (Sleep 0)] else [])
                @ (if m_hDesktopEvent1 s \<noteq> 0
                   then [SYS (CloseHandle (m_hDesktopEvent1 s))] else [])
                @ (if m_NotificationThread s then [SYS ThreadJoin] else [])
                @ (if m_hDesktopEvent0 s \<noteq> 0
                   then [SYS (DeleteDOPPEvent (m_hDesktopEvent0 s))] else []))
     \<and> \<not> m_bTrackDesktopChanges s' \<and> m_hDesktopEvent0 s' = 0 \<and> m_hDesktopEvent1 s' = 0
     \<and> \<not> m_NotificationThread s'
     \<and> (m_NotificationThread s \<longrightarrow> k_waiter k' = Done)"
proof -
  let ?s2 = "s\<lparr>m_pFBO := None, m_pTexture := None\<rparr>"
  have h: "m_NotificationThread ?s2 \<longrightarrow> m_hDesktopEvent0 ?s2 \<noteq> 0"
    using assms(2) by simp
  from destroy_notification_returns [OF h, of sch k] obtain s' k' where
    "destroy_notification sch k ?s2 =
       Inr (s', k',
            [StoreTrackDesktopChanges False]
            @ (if m_hDesktopEvent0 s \<noteq> 0
               then [SYS (SetEvent (m_hDesktopEvent0 s)), SYS (Sleep 0)] else [])
            @ (if m_hDesktopEvent1 s \<noteq> 0
               then [SYS (CloseHandle (m_hDesktopEvent1 s))] else [])
            @ (if m_NotificationThread s then [SYS ThreadJoin] else [])
            @ (if m_hDesktopEvent0 s \<noteq> 0
               then [SYS (DeleteDOPPEvent (m_hDesktopEvent0 s))] else []))"
    and "\<not> m_bTrackDesktopChanges s'" "m_hDesktopEvent0 s' = 0" "m_hDesktopEvent1 s' = 0"
      "\<not> m_NotificationThread s'" "m_NotificationThread s \<longrightarrow> k_waiter k' = Done"
    by auto
  with assms(1) show ?thesis by (simp add: destroy_def)
qed

text \<open>
  Without the signal the \<open>join\<close> does block: a thread blocked in its wait, with no
  driver-change event for the destructor to set, never leaves the loop.
\<close>

lemma destroy_unsignaled_blocks:
  assumes "p_wglEnablePostProcessAMD g" "m_NotificationThread s" "m_hDesktopEvent0 s = 0"
  shows "destroy env g no_schedule blocked_kernel s = Inl BlockedForever"
proof -
  have "notificationLoop (blocked_kernel, t) = None" for t
    by (rule notificationLoop_Blocked) (simp add: blocked_kernel_def)
  moreover have "notificationLoop (blocked_kernel\<lparr>k_closed1 := True\<rparr>, t) = None" for t
    by (rule notificationLoop_Blocked) (simp add: blocked_kernel_def)
  ultimately show ?thesis
    using assms
    by (cases "m_hDesktopEvent1 s = 0")
       (simp_all add: destroy_def destroy_notification_def destroy_store_def destroy_signal_def
          destroy_close_def destroy_join_def no_schedule_def)
qed

text \<open>
  A thread that the destructor's \<open>SetEvent\<close> releases from its wait stores true to the
  changed flag before it tests the liveness flag and leaves.
\<close>

lemma destroy_blocked_waiter_stores:
  "\<exists>s' k' cs. destroy sample_driver all_procs no_schedule blocked_kernel
                 (sample_initialised 1 True False) = Inr (s', k', cs)
     \<and> k_waiter k' = Done \<and> m_bDesktopChanged s'"
proof -
  let ?s = "(sample_initialised 1 True False)\<lparr>m_pFBO := None, m_pTexture := None,
              m_bTrackDesktopChanges := False, m_hDesktopEvent1 := 0\<rparr>"
  let ?k = "(kernel_SetEvent0 blocked_kernel)\<lparr>k_closed1 := True\<rparr>"
  have r: "k_waiter ?k = Returned (WAIT_OBJECT_0 + 0)"
    by (simp add: kernel_SetEvent0_def blocked_kernel_def)
  have f: "\<not> m_bTrackDesktopChanges ?s" by simp
  note l = notificationLoop_Returned [OF r f]
  show ?thesis
    by (simp add: destroy_def destroy_notification_def destroy_store_def destroy_signal_def
        destroy_close_def destroy_join_def destroy_delete_def no_schedule_def all_procs_def
        sample_initialised_def l [unfolded sample_initialised_def, simplified])
qed

text \<open>After \<open>initDOPP\<close> a notification thread always has its driver-change event.\<close>

lemma initDOPP_thread_has_event:
  assumes "initDOPP env g w h rot bT bB s = Inr (RF_STATUS_OK, g', s', cs)"
    and "\<not> m_NotificationThread s"
  shows "m_NotificationThread s' \<longrightarrow> m_hDesktopEvent0 s' \<noteq> 0"
proof -
  have p: "init_prereq env w h s" using assms(1) by (rule initDOPP_OK_prereq)
  have nt: "\<not> m_NotificationThread (after_createQuad env w h s)"
    using assms(2) by (simp add: after_createQuad_def)
  from initDOPP_tracking_result [OF nt, of env bT bB] obtain s7 cT where
    t: "initDOPP_tracking env bT bB (after_createQuad env w h s) = Inr (s7, cT)"
    and e: "m_NotificationThread s7 \<longrightarrow> m_hDesktopEvent0 s7 \<noteq> 0"
    by force
  from initDOPP_prereq [OF p, of g rot bT bB] t assms(1) have "s' = s7" by auto
  with e show ?thesis by simp
qed

section \<open>The claims\<close>

text \<open>
  Claim C1. \<open>processDesktop\<close> composites, and returns true, exactly when the tracking
  mode permits it. On a session whose pool, shader and entry point are in place:
  untracked, it always composites; tracked and non-blocking, it returns false at once,
  with no call at all and the session untouched, when the changed flag is not set, and
  composites when it is set; tracked and blocking, it waits on the two events, returns
  false without compositing when the unblock event (index 1) was signaled, composites
  otherwise, and does not return when the wait does not. Every composite leaves the
  changed flag cleared, and the returned value is true exactly when the draw call was
  issued.
\<close>

theorem processDesktop_tracking_modes:
  assumes "can_render g s"
  shows "(\<not> m_bTrackDesktopChanges s \<longrightarrow>
            (\<exists>cs. processDesktop env g idx s = Inr (True, s\<lparr>m_bDesktopChanged := False\<rparr>, cs)
                  \<and> composited cs))
       \<and> (m_bTrackDesktopChanges s \<and> \<not> m_bBlocking s \<and> \<not> m_bDesktopChanged s \<longrightarrow>
            processDesktop env g idx s = Inr (False, s, []))
       \<and> (m_bTrackDesktopChanges s \<and> \<not> m_bBlocking s \<and> m_bDesktopChanged s \<longrightarrow>
            (\<exists>cs. processDesktop env g idx s = Inr (True, s\<lparr>m_bDesktopChanged := False\<rparr>, cs)
                  \<and> composited cs))
       \<and> (m_bTrackDesktopChanges s \<and> m_bBlocking s \<longrightarrow>
            (case ret_WaitForMultipleObjects env of
               None \<Rightarrow> processDesktop env g idx s = Inl BlockedForever
             | Some r \<Rightarrow>
                 if r = 1
                 then processDesktop env g idx s =
                        Inr (False, s,
                             [SYS (WaitForMultipleObjects (m_hDesktopEvent0 s) (m_hDesktopEvent1 s))])
                 else (\<exists>cs. processDesktop env g idx s =
                         Inr (True, s\<lparr>m_bDesktopChanged := False\<rparr>,
                              SYS (WaitForMultipleObjects (m_hDesktopEvent0 s) (m_hDesktopEvent1 s)) # cs)
                       \<and> composited cs)))
       \<and> (\<forall>b s' cs. processDesktop env g idx s = Inr (b, s', cs) \<longrightarrow> (b \<longleftrightarrow> composited cs))"
proof -
  have a: "\<not> m_bTrackDesktopChanges s \<longrightarrow>
            (\<exists>cs. processDesktop env g idx s = Inr (True, s\<lparr>m_bDesktopChanged := False\<rparr>, cs)
                  \<and> composited cs)"
    using processDesktop_composites [OF assms, of env idx] by blast
  have b: "m_bTrackDesktopChanges s \<and> \<not> m_bBlocking s \<and> \<not> m_bDesktopChanged s \<longrightarrow>
            processDesktop env g idx s = Inr (False, s, [])"
    using processDesktop_skips [of s env g idx] by blast
  have c: "m_bTrackDesktopChanges s \<and> \<not> m_bBlocking s \<and> m_bDesktopChanged s \<longrightarrow>
            (\<exists>cs. processDesktop env g idx s = Inr (True, s\<lparr>m_bDesktopChanged := False\<rparr>, cs)
                  \<and> composited cs)"
    using processDesktop_composites [OF assms, of env idx] by blast
  have d: "m_bTrackDesktopChanges s \<and> m_bBlocking s \<longrightarrow>
            (case ret_WaitForMultipleObjects env of
               None \<Rightarrow> processDesktop env g idx s = Inl BlockedForever
             | Some r \<Rightarrow>
                 if r = 1
                 then processDesktop env g idx s =
                        Inr (False, s,
                             [SYS (WaitForMultipleObjects (m_hDesktopEvent0 s) (m_hDesktopEvent1 s))])
                 else (\<exists>cs. processDesktop env g idx s =
                         Inr (True, s\<lparr>m_bDesktopChanged := False\<rparr>,
                              SYS (WaitForMultipleObjects (m_hDesktopEvent0 s) (m_hDesktopEvent1 s)) # cs)
                       \<and> composited cs))"
    using processDesktop_blocking [OF assms, of env idx] by blast
  have e: "\<forall>b s' cs. processDesktop env g idx s = Inr (b, s', cs) \<longrightarrow> (b \<longleftrightarrow> composited cs)"
  proof (intro allI impI)
    fix b s' cs assume r: "processDesktop env g idx s = Inr (b, s', cs)"
    show "b \<longleftrightarrow> composited cs"
    proof (cases "m_bTrackDesktopChanges s \<and> m_bBlocking s")
      case True
      with d r show ?thesis
        by (cases "ret_WaitForMultipleObjects env") (auto simp: composited_simps split: if_splits)
    next
      case False
      with a b c r show ?thesis by (auto simp: composited_simps)
    qed
  qed
  from a b c d e show ?thesis by blast
qed

text \<open>The four modes on a session initialized on the sample driver.\<close>

theorem processDesktop_tracking_modes_witness:
  "can_render all_procs (sample_initialised 1 False False)
   \<and> (\<exists>cs. processDesktop sample_driver all_procs 0 (sample_initialised 1 False False) =
              Inr (True, sample_initialised 1 False False, cs) \<and> composited cs)
   \<and> processDesktop sample_driver all_procs 0 (sample_initialised 1 True False) =
       Inr (False, sample_initialised 1 True False, [])
   \<and> (\<exists>cs. processDesktop sample_driver all_procs 0
               ((sample_initialised 1 True False)\<lparr>m_bDesktopChanged := True\<rparr>) =
              Inr (True, sample_initialised 1 True False, cs) \<and> composited cs)
   \<and> processDesktop unblock_driver all_procs 0 (sample_initialised 1 True True) =
       Inr (False, sample_initialised 1 True True, [SYS (WaitForMultipleObjects 100 200)])"
proof -
  have u: "can_render all_procs (sample_initialised 1 False False)"
    and t: "can_render all_procs (sample_initialised 1 True False)"
    and c: "can_render all_procs ((sample_initialised 1 True False)\<lparr>m_bDesktopChanged := True\<rparr>)"
    and b: "can_render all_procs (sample_initialised 1 True True)"
    by (simp_all add: can_render_def sample_initialised_def all_procs_def)
  have 1: "\<exists>cs. processDesktop sample_driver all_procs 0 (sample_initialised 1 False False) =
              Inr (True, sample_initialised 1 False False, cs) \<and> composited cs"
    using processDesktop_tracking_modes [OF u, of sample_driver 0]
    by (simp add: sample_initialised_def)
  have 2: "processDesktop sample_driver all_procs 0 (sample_initialised 1 True False) =
       Inr (False, sample_initialised 1 True False, [])"
    using processDesktop_tracking_modes [OF t, of sample_driver 0]
    by (simp add: sample_initialised_def)
  have 3: "\<exists>cs. processDesktop sample_driver all_procs 0
               ((sample_initialised 1 True False)\<lparr>m_bDesktopChanged := True\<rparr>) =
              Inr (True, sample_initialised 1 True False, cs) \<and> composited cs"
    using processDesktop_tracking_modes [OF c, of sample_driver 0]
    by (simp add: sample_initialised_def)
  have 4: "processDesktop unblock_driver all_procs 0 (sample_initialised 1 True True) =
       Inr (False, sample_initialised 1 True True, [SYS (WaitForMultipleObjects 100 200)])"
    using processDesktop_tracking_modes [OF b, of unblock_driver 0]
    by (simp add: sample_initialised_def unblock_driver_def sample_driver_def)
  from u 1 2 3 4 show ?thesis by blast
qed

text \<open>
  Claim C2, as the code has it. \<open>createRenderTargets\<close> returns false, changing
  nothing and calling nothing, when either array already exists. Otherwise it allocates
  both arrays with \<open>m_uiNumTargets\<close> generated names each and returns true exactly
  when every target passes the completeness check; a target that fails the check is
  only reported, the arrays stay allocated. \<open>resizePresentTexture\<close> therefore always
  ends with both arrays allocated, at the new size, and returns the OpenGL failure
  status exactly when some target is incomplete. Both operations keep the two arrays
  together: both null, or both allocated with \<open>m_uiNumTargets\<close> entries.
\<close>

theorem createRenderTargets_pool:
  "(m_pFBO s \<noteq> None \<or> m_pTexture s \<noteq> None \<longrightarrow> createRenderTargets env s = (False, s, []))
   \<and> (m_pFBO s = None \<and> m_pTexture s = None \<longrightarrow>
        fst (createRenderTargets env s) =
          list_all (ret_framebuffer_complete env) [0..<unat (m_uiNumTargets s)]
        \<and> fst (snd (createRenderTargets env s)) =
            s\<lparr>m_pFBO := Some (map (ret_glGenFramebuffers env) [0..<unat (m_uiNumTargets s)]),
              m_pTexture := Some (map (ret_glGenTextures env) [0..<unat (m_uiNumTargets s)])\<rparr>)
   \<and> (pool_whole s \<longrightarrow> pool_whole (fst (snd (createRenderTargets env s))))
   \<and> fst (resizePresentTexture env w h s) =
       (if list_all (ret_framebuffer_complete env) [0..<unat (m_uiNumTargets s)]
        then RF_STATUS_OK else RF_STATUS_OPENGL_FAIL)
   \<and> fst (snd (resizePresentTexture env w h s)) =
       s\<lparr>m_pTexture := Some (map (ret_glGenTextures env) [0..<unat (m_uiNumTargets s)]),
         m_pFBO := Some (map (ret_glGenFramebuffers env) [0..<unat (m_uiNumTargets s)]),
         m_uiPresentWidth := w, m_uiPresentHeight := h\<rparr>
   \<and> pool_whole (fst (snd (resizePresentTexture env w h s)))"
proof -
  have a: "m_pFBO s \<noteq> None \<or> m_pTexture s \<noteq> None \<longrightarrow> createRenderTargets env s = (False, s, [])"
    using createRenderTargets_exists [of s env] by blast
  have b: "m_pFBO s = None \<and> m_pTexture s = None \<longrightarrow>
        fst (createRenderTargets env s) =
          list_all (ret_framebuffer_complete env) [0..<unat (m_uiNumTargets s)]
        \<and> fst (snd (createRenderTargets env s)) =
            s\<lparr>m_pFBO := Some (map (ret_glGenFramebuffers env) [0..<unat (m_uiNumTargets s)]),
              m_pTexture := Some (map (ret_glGenTextures env) [0..<unat (m_uiNumTargets s)])\<rparr>"
    using createRenderTargets_members [of s env] by blast
  have c: "pool_whole (fst (snd (createRenderTargets env s)))" if w: "pool_whole s"
  proof (cases "m_pFBO s = None \<and> m_pTexture s = None")
    case True
    with b show ?thesis by (simp add: pool_whole_def)
  next
    case False
    then have "m_pFBO s \<noteq> None \<or> m_pTexture s \<noteq> None" by simp
    with a have "createRenderTargets env s = (False, s, [])" by blast
    with w show ?thesis by simp
  qed
  have d: "pool_whole (fst (snd (resizePresentTexture env w h s)))"
    by (simp add: resizePresentTexture_members pool_whole_def)
  from a b c d resizePresentTexture_members [of env w h s] show ?thesis by blast
qed

theorem createRenderTargets_pool_witness:
  "m_pFBO (member_init 1) = None \<and> m_pTexture (member_init 1) = None
   \<and> pool_whole (member_init 1)
   \<and> fst (createRenderTargets sample_driver (member_init 1)) = True
   \<and> pool_whole (fst (snd (createRenderTargets sample_driver (member_init 1))))
   \<and> m_pFBO (sample_initialised 1 False False) \<noteq> None
   \<and> createRenderTargets sample_driver (sample_initialised 1 False False) =
       (False, sample_initialised 1 False False, [])
   \<and> fst (resizePresentTexture incomplete_driver 32 32 (sample_initialised 1 False False))
       = RF_STATUS_OPENGL_FAIL
   \<and> m_pTexture (fst (snd (resizePresentTexture incomplete_driver 32 32
                             (sample_initialised 1 False False)))) = Some [10, 11]"
proof -
  have e: "m_pFBO (member_init 1) = None \<and> m_pTexture (member_init 1) = None"
    and w: "pool_whole (member_init 1)"
    and f: "m_pFBO (sample_initialised 1 False False) \<noteq> None"
    by (simp_all add: member_init_def pool_whole_def sample_initialised_def)
  note t1 = createRenderTargets_pool [of "member_init 1" sample_driver 0 0]
  note t2 = createRenderTargets_pool [of "sample_initialised 1 False False" sample_driver 0 0]
  note t3 = createRenderTargets_pool [of "sample_initialised 1 False False" incomplete_driver 32 32]
  from t1 e have "fst (createRenderTargets sample_driver (member_init 1)) =
          list_all (ret_framebuffer_complete sample_driver) [0..<unat (m_uiNumTargets (member_init 1))]"
    by blast
  then have 1: "fst (createRenderTargets sample_driver (member_init 1)) = True"
    by (simp add: sample_driver_def member_init_def upt_0_2)
  from t1 w have 2: "pool_whole (fst (snd (createRenderTargets sample_driver (member_init 1))))"
    by blast
  from t2 f have 3: "createRenderTargets sample_driver (sample_initialised 1 False False) =
       (False, sample_initialised 1 False False, [])"
    by blast
  from t3 have "fst (resizePresentTexture incomplete_driver 32 32 (sample_initialised 1 False False)) =
       (if list_all (ret_framebuffer_complete incomplete_driver)
             [0..<unat (m_uiNumTargets (sample_initialised 1 False False))]
        then RF_STATUS_OK else RF_STATUS_OPENGL_FAIL)"
    by blast
  then have 4: "fst (resizePresentTexture incomplete_driver 32 32 (sample_initialised 1 False False))
       = RF_STATUS_OPENGL_FAIL"
    by (simp add: incomplete_driver_def sample_driver_def sample_initialised_def upt_0_2)
  from t3 have "fst (snd (resizePresentTexture incomplete_driver 32 32 (sample_initialised 1 False False))) =
       (sample_initialised 1 False False)
         \<lparr>m_pTexture := Some (map (ret_glGenTextures incomplete_driver)
                                [0..<unat (m_uiNumTargets (sample_initialised 1 False False))]),
          m_pFBO := Some (map (ret_glGenFramebuffers incomplete_driver)
                            [0..<unat (m_uiNumTargets (sample_initialised 1 False False))]),
          m_uiPresentWidth := 32, m_uiPresentHeight := 32\<rparr>"
    by blast
  then have 5: "m_pTexture (fst (snd (resizePresentTexture incomplete_driver 32 32
                             (sample_initialised 1 False False)))) = Some [10, 11]"
    by (simp add: incomplete_driver_def sample_driver_def sample_initialised_def upt_0_2)
  from e w f 1 2 3 4 5 show ?thesis by blast
qed

text \<open>A build on which the completeness check fails returns false and leaves both
  arrays allocated: slot 0 still answers with the texture name 10.\<close>

theorem createRenderTargets_failure_keeps_pool:
  "fst (createRenderTargets incomplete_driver (member_init 1)) = False
   \<and> m_pFBO (fst (snd (createRenderTargets incomplete_driver (member_init 1)))) = Some [1, 2]
   \<and> m_pTexture (fst (snd (createRenderTargets incomplete_driver (member_init 1)))) = Some [10, 11]
   \<and> getFramebufferTex 0 (fst (snd (createRenderTargets incomplete_driver (member_init 1)))) = Inr 10"
proof -
  have e: "m_pFBO (member_init 1) = None" "m_pTexture (member_init 1) = None"
    and n: "unat (m_uiNumTargets (member_init 1)) = 2"
    by (simp_all add: member_init_def)
  have g: "map (ret_glGenFramebuffers incomplete_driver) [0..<2] = [1, 2]"
    "map (ret_glGenTextures incomplete_driver) [0..<2] = [10, 11]"
    and c: "\<not> list_all (ret_framebuffer_complete incomplete_driver) [0..<2]"
    by (simp_all add: incomplete_driver_def sample_driver_def upt_0_2)
  note m = createRenderTargets_members [OF e, of incomplete_driver, unfolded n g]
  show ?thesis
    by (simp only: m) (simp add: c getFramebufferTex_def member_init_def)
qed

text \<open>
  Claim C3. When \<open>resizeDesktopTexture\<close> fails because the driver no longer accepts
  the desktop id, it returns \<open>RF_STATUS_INVALID_DESKTOP_ID\<close> and every member of the
  session, the capture-texture handle and the desktop width and height among them, has
  the value it had before the call. The calls made on the way are the lock, the
  deletion of the old desktop texture when the handle is not zero, and the refused
  selection.
\<close>

theorem resizeDesktopTexture_unselectable:
  assumes "0 < m_uiDesktopId s" "p_wglDesktopTargetAMD g"
    and "\<not> ret_wglDesktopTargetAMD env (m_uiDesktopId s)"
  shows "resizeDesktopTexture env g s =
           Inr (RF_STATUS_INVALID_DESKTOP_ID, s,
                [LockAcquire]
                @ (if m_uiDesktopTexture s \<noteq> 0
                   then [GL (GlDeleteTextures 1 [m_uiDesktopTexture s])] else [])
                @ [WGL (WglDesktopTargetAMD (m_uiDesktopId s)), LockRelease])"
  using assms by (simp add: resizeDesktopTexture_def Let_def)

theorem resizeDesktopTexture_unselectable_witness:
  "0 < m_uiDesktopId (sample_initialised 1 False False)
   \<and> p_wglDesktopTargetAMD all_procs
   \<and> \<not> ret_wglDesktopTargetAMD unselectable_driver (m_uiDesktopId (sample_initialised 1 False False))
   \<and> resizeDesktopTexture unselectable_driver all_procs (sample_initialised 1 False False) =
       Inr (RF_STATUS_INVALID_DESKTOP_ID, sample_initialised 1 False False,
            [LockAcquire, GL (GlDeleteTextures 1 [7]), WGL (WglDesktopTargetAMD 1), LockRelease])"
proof -
  have a: "0 < m_uiDesktopId (sample_initialised 1 False False)"
    and b: "p_wglDesktopTargetAMD all_procs"
    and c: "\<not> ret_wglDesktopTargetAMD unselectable_driver (m_uiDesktopId (sample_initialised 1 False False))"
    by (simp_all add: sample_initialised_def all_procs_def unselectable_driver_def sample_driver_def)
  have d: "m_uiDesktopTexture (sample_initialised 1 False False) = 7"
    "m_uiDesktopId (sample_initialised 1 False False) = 1"
    by (simp_all add: sample_initialised_def)
  from resizeDesktopTexture_unselectable [OF a b c] a b c d show ?thesis by simp
qed

text \<open>
  Claim C4, as the code has it. \<open>initDOPP\<close> with a zero width or a zero height fails
  without modifying the session or the entry points; the status is
  \<open>RF_STATUS_INVALID_DIMENSION\<close> when a graphics context is current, and
  \<open>RF_STATUS_OPENGL_FAIL\<close> when none is, since the context is tested first.
\<close>

theorem initDOPP_zero_dimension:
  assumes "w = 0 \<or> h = 0"
  shows "initDOPP env g w h rot bT bB s =
           Inr (if ret_wglGetCurrentContext env then RF_STATUS_INVALID_DIMENSION
                else RF_STATUS_OPENGL_FAIL,
                g, s, [LockAcquire, WGL WglGetCurrentContext, LockRelease])"
  using assms by (auto simp: initDOPP_def Let_def)

theorem initDOPP_zero_dimension_witness:
  "((0::uint) = 0 \<or> (16::uint) = 0)
   \<and> initDOPP sample_driver no_procs 0 16 0 True False (member_init 1) =
       Inr (RF_STATUS_INVALID_DIMENSION, no_procs, member_init 1,
            [LockAcquire, WGL WglGetCurrentContext, LockRelease])"
  using initDOPP_zero_dimension [of 0 16 sample_driver no_procs 0 True False "member_init 1"]
  by (simp add: sample_driver_def)

text \<open>Without a current context a zero width does not yield the invalid-dimension
  status.\<close>

theorem initDOPP_zero_dimension_no_context:
  "initDOPP no_context_driver no_procs 0 16 0 True False (member_init 1) =
     Inr (RF_STATUS_OPENGL_FAIL, no_procs, member_init 1,
          [LockAcquire, WGL WglGetCurrentContext, LockRelease])"
  by (simp add: initDOPP_def Let_def no_context_driver_def sample_driver_def)

text \<open>
  Claim C5. On a run of \<open>initDOPP\<close> whose earlier steps succeed, started without a
  running notification thread, the call returns \<open>RF_STATUS_OK\<close> whatever the tracking
  arguments and whatever the driver answers to the event registration. Afterwards the
  blocking flag is the one requested; tracking is on exactly when tracking or blocking
  was requested and the registration gave an event, so blocking alone turns tracking
  on and a failed registration turns it off; the notification thread is started exactly
  when tracking is on and the mode is non-blocking; and the session can still render.
\<close>

theorem initDOPP_tracking_configuration:
  assumes "init_prereq env w h s" and "\<not> m_NotificationThread s"
  shows "\<exists>s' cs. initDOPP env g w h rot bT bB s = Inr (RF_STATUS_OK, all_procs, s', cs)
           \<and> m_bBlocking s' = bB
           \<and> m_bTrackDesktopChanges s' = ((bT \<or> bB) \<and> ret_createDOPPEvent env \<noteq> 0)
           \<and> m_NotificationThread s' = (m_bTrackDesktopChanges s' \<and> \<not> m_bBlocking s')
           \<and> (SYS ThreadStart \<in> set cs \<longleftrightarrow> m_bTrackDesktopChanges s' \<and> \<not> m_bBlocking s')
           \<and> (SYS CreateDOPPEvent \<in> set cs \<longleftrightarrow> bT \<or> bB)
           \<and> (0 < m_uiNumTargets s \<longrightarrow> can_render all_procs s')"
proof -
  let ?s6 = "after_createQuad env w h s"
  have nt: "\<not> m_NotificationThread ?s6"
    using assms(2) by (simp add: after_createQuad_def)
  from initDOPP_tracking_result [OF nt, of env bT bB] obtain s7 cT where
    t: "initDOPP_tracking env bT bB ?s6 = Inr (s7, cT)"
    and b: "m_bBlocking s7 = bB"
    and tr: "m_bTrackDesktopChanges s7 = ((bT \<or> bB) \<and> ret_createDOPPEvent env \<noteq> 0)"
    and th: "m_NotificationThread s7 = ((bT \<or> bB) \<and> ret_createDOPPEvent env \<noteq> 0 \<and> \<not> bB)"
    and ts: "SYS ThreadStart \<in> set cT \<longleftrightarrow> (bT \<or> bB) \<and> ret_createDOPPEvent env \<noteq> 0 \<and> \<not> bB"
    and ce: "SYS CreateDOPPEvent \<in> set cT \<longleftrightarrow> bT \<or> bB"
    by force
  from initDOPP_prereq [OF assms(1), of g rot bT bB] t obtain c where
    rc: "resource_calls c"
    and i: "initDOPP env g w h rot bT bB s = Inr (RF_STATUS_OK, all_procs, s7, c @ cT @ [LockRelease])"
    by auto
  have m1: "SYS ThreadStart \<in> set (c @ cT @ [LockRelease]) \<longleftrightarrow> SYS ThreadStart \<in> set cT"
    and m2: "SYS CreateDOPPEvent \<in> set (c @ cT @ [LockRelease]) \<longleftrightarrow> SYS CreateDOPPEvent \<in> set cT"
    using resource_calls_no_sys [OF rc] by auto
  have cr: "0 < m_uiNumTargets s \<longrightarrow> can_render all_procs s7"
    using can_render_after_initDOPP [OF i] by blast
  from i b tr th ts ce m1 m2 cr show ?thesis by blast
qed

theorem initDOPP_tracking_configuration_witness:
  "init_prereq sample_driver 16 16 (member_init 1) \<and> \<not> m_NotificationThread (member_init 1)
   \<and> (\<exists>s' cs. initDOPP sample_driver no_procs 16 16 0 False True (member_init 1) =
                 Inr (RF_STATUS_OK, all_procs, s', cs)
               \<and> m_bTrackDesktopChanges s' \<and> m_bBlocking s' \<and> \<not> m_NotificationThread s'
               \<and> SYS ThreadStart \<notin> set cs)
   \<and> (\<exists>s' cs. initDOPP sample_driver no_procs 16 16 0 True False (member_init 1) =
                 Inr (RF_STATUS_OK, all_procs, s', cs)
               \<and> m_bTrackDesktopChanges s' \<and> \<not> m_bBlocking s' \<and> m_NotificationThread s'
               \<and> SYS ThreadStart \<in> set cs)
   \<and> (\<exists>s' cs. initDOPP no_event_driver no_procs 16 16 0 True False (member_init 1) =
                 Inr (RF_STATUS_OK, all_procs, s', cs)
               \<and> \<not> m_bTrackDesktopChanges s' \<and> \<not> m_NotificationThread s'
               \<and> SYS ThreadStart \<notin> set cs \<and> can_render all_procs s')"
proof -
  have p: "init_prereq sample_driver 16 16 (member_init 1)" by (rule init_prereq_sample)
  have q: "init_prereq no_event_driver 16 16 (member_init 1)" by (rule init_prereq_no_event)
  have n: "\<not> m_NotificationThread (member_init 1)" by (simp add: member_init_def)
  have e: "ret_createDOPPEvent sample_driver \<noteq> 0" "ret_createDOPPEvent no_event_driver = 0"
    "0 < m_uiNumTargets (member_init 1)"
    by (simp_all add: sample_driver_def no_event_driver_def member_init_def)
  have 1: "\<exists>s' cs. initDOPP sample_driver no_procs 16 16 0 False True (member_init 1) =
                 Inr (RF_STATUS_OK, all_procs, s', cs)
               \<and> m_bTrackDesktopChanges s' \<and> m_bBlocking s' \<and> \<not> m_NotificationThread s'
               \<and> SYS ThreadStart \<notin> set cs"
    using initDOPP_tracking_configuration [OF p n, of no_procs 0 False True] e by auto
  have 2: "\<exists>s' cs. initDOPP sample_driver no_procs 16 16 0 True False (member_init 1) =
                 Inr (RF_STATUS_OK, all_procs, s', cs)
               \<and> m_bTrackDesktopChanges s' \<and> \<not> m_bBlocking s' \<and> m_NotificationThread s'
               \<and> SYS ThreadStart \<in> set cs"
    using initDOPP_tracking_configuration [OF p n, of no_procs 0 True False] e by auto
  have 3: "\<exists>s' cs. initDOPP no_event_driver no_procs 16 16 0 True False (member_init 1) =
                 Inr (RF_STATUS_OK, all_procs, s', cs)
               \<and> \<not> m_bTrackDesktopChanges s' \<and> \<not> m_NotificationThread s'
               \<and> SYS ThreadStart \<notin> set cs \<and> can_render all_procs s'"
    using initDOPP_tracking_configuration [OF q n, of no_procs 0 True False] e by auto
  from p n 1 2 3 show ?thesis by blast
qed

text \<open>
  Claim C6 fails on the code. \<open>initDOPP\<close> on the sample driver at 16 by 16 succeeds and
  leaves positive present dimensions; \<open>resizePresentTexture\<close> with zero arguments
  then stores the zeros, whether the rebuilt targets pass the completeness check (status
  \<open>RF_STATUS_OK\<close>) or not (\<open>RF_STATUS_OPENGL_FAIL\<close>): it has no dimension test of the
  kind \<open>initDOPP\<close> has.
\<close>

theorem resizePresentTexture_zero_dimensions:
  "(\<exists>cs. initDOPP sample_driver no_procs 16 16 0 False False (member_init 1) =
           Inr (RF_STATUS_OK, all_procs, sample_initialised 1 False False, cs))
   \<and> 0 < m_uiPresentWidth (sample_initialised 1 False False)
   \<and> 0 < m_uiPresentHeight (sample_initialised 1 False False)
   \<and> fst (resizePresentTexture sample_driver 0 0 (sample_initialised 1 False False)) = RF_STATUS_OK
   \<and> m_uiPresentWidth (fst (snd (resizePresentTexture sample_driver 0 0
                                   (sample_initialised 1 False False)))) = 0
   \<and> m_uiPresentHeight (fst (snd (resizePresentTexture sample_driver 0 0
                                    (sample_initialised 1 False False)))) = 0
   \<and> fst (resizePresentTexture incomplete_driver 0 0 (sample_initialised 1 False False))
       = RF_STATUS_OPENGL_FAIL
   \<and> m_uiPresentWidth (fst (snd (resizePresentTexture incomplete_driver 0 0
                                   (sample_initialised 1 False False)))) = 0"
proof -
  have i: "\<exists>cs. initDOPP sample_driver no_procs 16 16 0 False False (member_init 1) =
           Inr (RF_STATUS_OK, all_procs, sample_initialised 1 False False, cs)"
    using initDOPP_sample [of False False 1] by simp
  have p: "0 < m_uiPresentWidth (sample_initialised 1 False False)"
    "0 < m_uiPresentHeight (sample_initialised 1 False False)"
    by (simp_all add: sample_initialised_def)
  have r: "fst (resizePresentTexture sample_driver 0 0 (sample_initialised 1 False False)) = RF_STATUS_OK"
    "fst (resizePresentTexture incomplete_driver 0 0 (sample_initialised 1 False False))
       = RF_STATUS_OPENGL_FAIL"
    by (simp_all add: resizePresentTexture_members incomplete_driver_def sample_driver_def
        sample_initialised_def upt_0_2)
  have z: "m_uiPresentWidth (fst (snd (resizePresentTexture sample_driver 0 0
                                   (sample_initialised 1 False False)))) = 0"
    "m_uiPresentHeight (fst (snd (resizePresentTexture sample_driver 0 0
                                    (sample_initialised 1 False False)))) = 0"
    "m_uiPresentWidth (fst (snd (resizePresentTexture incomplete_driver 0 0
                                   (sample_initialised 1 False False)))) = 0"
    by (simp_all add: resizePresentTexture_members)
  from i p r z show ?thesis by blast
qed

text \<open>
  Claim C7. Let the \<open>wglEnablePostProcessAMD\<close> entry point be resolved and let the
  notification thread, if there is one, have its driver-change event, as it has after
  \<open>initDOPP\<close>. Then the destructor returns, wherever the notification thread is in its
  loop, whatever the state of the two events, and however the steps of that thread and
  the signals of the driver fall between the destructor's statements: the \<open>join\<close> does
  not block, and the notification thread has left its loop. The calls the destructor
  makes end, in this order, with: the store of false to the tracking flag; \<open>SetEvent\<close>
  on the driver-change event; \<open>CloseHandle\<close> on the unblock event; the \<open>join\<close> of the
  notification thread; \<open>deleteDOPPEvent\<close> on the driver-change event. Each of the last
  four is made when its handle is not null, respectively when the thread is joinable.
  Everything before the store is release of graphics resources and contains none of
  these calls. The blocking flag has no influence on the calls made. Afterwards the
  tracking flag is false, both handles are null and the thread is not joinable.
\<close>

theorem destroy_order:
  assumes "p_wglEnablePostProcessAMD g"
    and "m_NotificationThread s \<longrightarrow> m_hDesktopEvent0 s \<noteq> 0"
  shows "\<exists>s' k' pre. destroy env g sch k s =
           Inr (s', k',
                pre @ [StoreTrackDesktopChanges False]
                @ (if m_hDesktopEvent0 s \<noteq> 0
                   then [SYS (SetEvent (m_hDesktopEvent0 s)), SYS (Sleep 0)] else [])
                @ (if m_hDesktopEvent1 s \<noteq> 0
                   then [SYS (CloseHandle (m_hDesktopEvent1 s))] else [])
                @ (if m_NotificationThread s then [SYS ThreadJoin] else [])
                @ (if m_hDesktopEvent0 s \<noteq> 0
                   then [SYS (DeleteDOPPEvent (m_hDesktopEvent0 s))] else []))
         \<and> \<not> list_ex notification_call pre
         \<and> \<not> m_bTrackDesktopChanges s' \<and> m_hDesktopEvent0 s' = 0 \<and> m_hDesktopEvent1 s' = 0
         \<and> \<not> m_NotificationThread s'
         \<and> (m_NotificationThread s \<longrightarrow> k_waiter k' = Done)
         \<and> (\<forall>b. map_sum id (snd \<circ> snd) (destroy env g sch k (s\<lparr>m_bBlocking := b\<rparr>))
                 = map_sum id (snd \<circ> snd) (destroy env g sch k s))"
proof -
  let ?pre = "[WGL (WglEnablePostProcessAMD False), WGL WglGetCurrentContext] @ destroy_graphics env s"
  have q: "\<not> list_ex notification_call ?pre"
    using destroy_graphics_quiet [of env s] by (simp add: notification_call_def)
  have b: "map_sum id (snd \<circ> snd) (destroy env g sch k (s\<lparr>m_bBlocking := b\<rparr>))
                 = map_sum id (snd \<circ> snd) (destroy env g sch k s)" for b
  proof -
    have h: "m_NotificationThread (s\<lparr>m_bBlocking := b\<rparr>)
               \<longrightarrow> m_hDesktopEvent0 (s\<lparr>m_bBlocking := b\<rparr>) \<noteq> 0"
      using assms(2) by simp
    from destroy_returns [OF assms(1) h, of env sch k] destroy_returns [OF assms, of env sch k]
    show ?thesis by (auto simp: destroy_graphics_blocking)
  qed
  from destroy_returns [OF assms, of env sch k] q b show ?thesis by blast
qed

text \<open>A session with a notification thread blocked in its wait, under a schedule that
  lets it run between the statements; and a blocking session, which has no thread.\<close>

theorem destroy_order_witness:
  "p_wglEnablePostProcessAMD all_procs
   \<and> m_NotificationThread (sample_initialised 1 True False)
   \<and> m_hDesktopEvent0 (sample_initialised 1 True False) \<noteq> 0
   \<and> (\<exists>s' k' pre. destroy sample_driver all_procs busy_schedule blocked_kernel
                     (sample_initialised 1 True False) =
         Inr (s', k', pre @ [StoreTrackDesktopChanges False, SYS (SetEvent 100), SYS (Sleep 0),
                             SYS (CloseHandle 200), SYS ThreadJoin, SYS (DeleteDOPPEvent 100)])
       \<and> \<not> list_ex notification_call pre \<and> \<not> m_bTrackDesktopChanges s' \<and> k_waiter k' = Done)
   \<and> (\<exists>s' k' pre. destroy sample_driver all_procs no_schedule blocked_kernel
                     (sample_initialised 1 True True) =
         Inr (s', k', pre @ [StoreTrackDesktopChanges False, SYS (SetEvent 100), SYS (Sleep 0),
                             SYS (CloseHandle 200), SYS (DeleteDOPPEvent 100)])
       \<and> \<not> list_ex notification_call pre \<and> \<not> m_bTrackDesktopChanges s')"
proof -
  have p: "p_wglEnablePostProcessAMD all_procs" by (simp add: all_procs_def)
  have h1: "m_NotificationThread (sample_initialised 1 True False)
        \<longrightarrow> m_hDesktopEvent0 (sample_initialised 1 True False) \<noteq> 0"
    and h2: "m_NotificationThread (sample_initialised 1 True True)
        \<longrightarrow> m_hDesktopEvent0 (sample_initialised 1 True True) \<noteq> 0"
    and a: "m_NotificationThread (sample_initialised 1 True False)"
      "m_hDesktopEvent0 (sample_initialised 1 True False) \<noteq> 0"
    by (simp_all add: sample_initialised_def)
  have 1: "\<exists>s' k' pre. destroy sample_driver all_procs busy_schedule blocked_kernel
                     (sample_initialised 1 True False) =
         Inr (s', k', pre @ [StoreTrackDesktopChanges False, SYS (SetEvent 100), SYS (Sleep 0),
                             SYS (CloseHandle 200), SYS ThreadJoin, SYS (DeleteDOPPEvent 100)])
       \<and> \<not> list_ex notification_call pre \<and> \<not> m_bTrackDesktopChanges s' \<and> k_waiter k' = Done"
    using destroy_order [OF p h1, of sample_driver busy_schedule blocked_kernel]
    by (simp add: sample_initialised_def) blast
  have 2: "\<exists>s' k' pre. destroy sample_driver all_procs no_schedule blocked_kernel
                     (sample_initialised 1 True True) =
         Inr (s', k', pre @ [StoreTrackDesktopChanges False, SYS (SetEvent 100), SYS (Sleep 0),
                             SYS (CloseHandle 200), SYS (DeleteDOPPEvent 100)])
       \<and> \<not> list_ex notification_call pre \<and> \<not> m_bTrackDesktopChanges s'"
    using destroy_order [OF p h2, of sample_driver no_schedule blocked_kernel]
    by (simp add: sample_initialised_def) blast
  from p a 1 2 show ?thesis by blast
qed

text \<open>
  Claim C8. A slot index greater than or equal to \<open>m_uiNumTargets\<close> is replaced by 0:
  the call gives what the call for slot 0 gives. On a session that can render, the
  only way not to return is a blocking wait that is never signaled; no index reads
  outside the framebuffer array.
\<close>

theorem processDesktop_clamps_index:
  assumes "m_uiNumTargets s \<le> idx"
  shows "processDesktop env g idx s = processDesktop env g 0 s
       \<and> (can_render g s \<longrightarrow> (\<forall>e. processDesktop env g idx s = Inl e \<longrightarrow> e = BlockedForever))"
proof -
  have eq: "processDesktop env g idx s = processDesktop env g 0 s"
    using assms by (simp add: processDesktop_def)
  have "\<forall>e. processDesktop env g idx s = Inl e \<longrightarrow> e = BlockedForever" if cr: "can_render g s"
  proof -
    consider (render) "\<not> m_bTrackDesktopChanges s \<or> (\<not> m_bBlocking s \<and> m_bDesktopChanged s)"
      | (skip) "m_bTrackDesktopChanges s" "\<not> m_bBlocking s" "\<not> m_bDesktopChanged s"
      | (wait) "m_bTrackDesktopChanges s" "m_bBlocking s"
      by blast
    then show ?thesis
    proof cases
      case render
      from processDesktop_composites [OF cr this, of env idx] show ?thesis by auto
    next
      case skip
      from processDesktop_skips [OF this, of env g idx] show ?thesis by simp
    next
      case wait
      from processDesktop_blocking [OF cr this, of env idx] show ?thesis
        by (cases "ret_WaitForMultipleObjects env") (auto split: if_splits)
    qed
  qed
  with eq show ?thesis by blast
qed

theorem processDesktop_clamps_index_witness:
  "m_uiNumTargets (sample_initialised 1 False False) \<le> 5
   \<and> can_render all_procs (sample_initialised 1 False False)
   \<and> processDesktop sample_driver all_procs 5 (sample_initialised 1 False False) =
       processDesktop sample_driver all_procs 0 (sample_initialised 1 False False)
   \<and> processDesktop sample_driver all_procs 5 (sample_initialised 1 False False) \<noteq> Inl OutOfBounds"
proof -
  have n: "m_uiNumTargets (sample_initialised 1 False False) \<le> 5"
    by (simp add: sample_initialised_def)
  have u: "can_render all_procs (sample_initialised 1 False False)"
    by (simp add: can_render_def sample_initialised_def all_procs_def)
  from processDesktop_clamps_index [OF n, of sample_driver all_procs] n u
  show ?thesis by auto
qed

text \<open>
  Claim C9. After \<open>initDOPP\<close> has returned \<open>RF_STATUS_OK\<close>, and given that
  \<open>glGenTextures\<close> wrote fresh names (none zero, no two equal), \<open>getFramebufferTex\<close>
  returns for every slot below \<open>m_uiNumTargets\<close> the name generated for that slot,
  which is not zero; two different slots give different names; every index from
  \<open>m_uiNumTargets\<close> on gives 0; and a session without a texture array gives 0 for every
  index.
\<close>

theorem getFramebufferTex_after_initDOPP:
  assumes "initDOPP env g w h rot bT bB s = Inr (RF_STATUS_OK, g', s', cs)"
    and "gen_textures_fresh env (unat (m_uiNumTargets s))"
  shows "(\<forall>i. i < m_uiNumTargets s' \<longrightarrow>
            getFramebufferTex i s' = Inr (ret_glGenTextures env (unat i))
            \<and> ret_glGenTextures env (unat i) \<noteq> 0)
       \<and> (\<forall>i j. i < m_uiNumTargets s' \<and> j < m_uiNumTargets s' \<and> i \<noteq> j \<longrightarrow>
            getFramebufferTex i s' \<noteq> getFramebufferTex j s')
       \<and> (\<forall>i. \<not> i < m_uiNumTargets s' \<longrightarrow> getFramebufferTex i s' = Inr 0)
       \<and> (\<forall>t i. m_pTexture t = None \<longrightarrow> getFramebufferTex i t = Inr 0)"
proof -
  let ?n = "unat (m_uiNumTargets s)"
  let ?f = "ret_glGenTextures env"
  from initDOPP_OK_members [OF assms(1)] have n: "m_uiNumTargets s' = m_uiNumTargets s"
    and tex: "m_pTexture s' = Some (map ?f [0..<unat (m_uiNumTargets s')])"
    by simp_all
  from assms(2) have nz: "\<And>k. k < ?n \<Longrightarrow> ?f k \<noteq> 0"
    and inj: "inj_on ?f {0..<?n}"
    by (auto simp: gen_textures_fresh_def list_all_iff distinct_map)
  have slot: "getFramebufferTex i s' = Inr (?f (unat i))" if "i < m_uiNumTargets s'" for i
    using getFramebufferTex_slot [OF tex that] .
  have lt: "unat i < ?n" if "i < m_uiNumTargets s'" for i
    using that n by (simp add: word_less_nat_alt)
  have a: "\<forall>i. i < m_uiNumTargets s' \<longrightarrow>
            getFramebufferTex i s' = Inr (?f (unat i)) \<and> ?f (unat i) \<noteq> 0"
    using slot lt nz by blast
  have b: "\<forall>i j. i < m_uiNumTargets s' \<and> j < m_uiNumTargets s' \<and> i \<noteq> j \<longrightarrow>
            getFramebufferTex i s' \<noteq> getFramebufferTex j s'"
  proof (intro allI impI)
    fix i j assume h: "i < m_uiNumTargets s' \<and> j < m_uiNumTargets s' \<and> i \<noteq> j"
    then have "unat i \<noteq> unat j" by (simp add: word_unat_eq_iff)
    moreover have "unat i \<in> {0..<?n}" "unat j \<in> {0..<?n}" using h lt by simp_all
    ultimately have "?f (unat i) \<noteq> ?f (unat j)" using inj by (auto dest: inj_onD)
    with h slot show "getFramebufferTex i s' \<noteq> getFramebufferTex j s'" by simp
  qed
  from a b getFramebufferTex_outside getFramebufferTex_no_pool show ?thesis by blast
qed

theorem getFramebufferTex_after_initDOPP_witness:
  "(\<exists>cs. initDOPP sample_driver no_procs 16 16 0 False False (member_init 1) =
          Inr (RF_STATUS_OK, all_procs, sample_initialised 1 False False, cs))
   \<and> gen_textures_fresh sample_driver (unat (m_uiNumTargets (member_init 1)))
   \<and> getFramebufferTex 0 (sample_initialised 1 False False) = Inr 10
   \<and> getFramebufferTex 1 (sample_initialised 1 False False) = Inr 11
   \<and> getFramebufferTex 0 (sample_initialised 1 False False)
       \<noteq> getFramebufferTex 1 (sample_initialised 1 False False)
   \<and> getFramebufferTex 2 (sample_initialised 1 False False) = Inr 0
   \<and> getFramebufferTex 0 (member_init 1) = Inr 0"
proof -
  obtain cs where i: "initDOPP sample_driver no_procs 16 16 0 False False (member_init 1) =
          Inr (RF_STATUS_OK, all_procs, sample_initialised 1 False False, cs)"
    using initDOPP_sample [of False False 1] by auto
  have f: "gen_textures_fresh sample_driver (unat (m_uiNumTargets (member_init 1)))"
    by (simp add: gen_textures_fresh_def member_init_def sample_driver_def upt_0_2)
  have n: "m_uiNumTargets (sample_initialised 1 False False) = 2"
    and e: "m_pTexture (member_init 1) = None"
    by (simp_all add: sample_initialised_def member_init_def)
  note t = getFramebufferTex_after_initDOPP [OF i f, unfolded n]
  from t have t1: "(0::uint) < 2 \<longrightarrow> getFramebufferTex 0 (sample_initialised 1 False False)
                     = Inr (ret_glGenTextures sample_driver (unat (0::uint)))"
    by blast
  from t have t1': "(1::uint) < 2 \<longrightarrow> getFramebufferTex 1 (sample_initialised 1 False False)
                     = Inr (ret_glGenTextures sample_driver (unat (1::uint)))"
    by blast
  from t have t2: "(0::uint) < 2 \<and> (1::uint) < 2 \<and> (0::uint) \<noteq> 1 \<longrightarrow>
               getFramebufferTex 0 (sample_initialised 1 False False)
                 \<noteq> getFramebufferTex 1 (sample_initialised 1 False False)"
    by blast
  from t have t3: "\<not> (2::uint) < 2 \<longrightarrow> getFramebufferTex 2 (sample_initialised 1 False False) = Inr 0"
    by blast
  from t have t4: "m_pTexture (member_init 1) = None \<longrightarrow> getFramebufferTex 0 (member_init 1) = Inr 0"
    by blast
  have "getFramebufferTex 0 (sample_initialised 1 False False) = Inr 10"
    using t1 by (simp add: sample_driver_def)
  moreover have "getFramebufferTex 1 (sample_initialised 1 False False) = Inr 11"
    using t1' by (simp add: sample_driver_def)
  moreover have "getFramebufferTex 0 (sample_initialised 1 False False)
       \<noteq> getFramebufferTex 1 (sample_initialised 1 False False)"
    using t2 by simp
  moreover have "getFramebufferTex 2 (sample_initialised 1 False False) = Inr 0"
    using t3 by simp
  moreover have "getFramebufferTex 0 (member_init 1) = Inr 0"
    using t4 e by simp
  ultimately show ?thesis using i f by blast
qed

text \<open>
  Claim C10. On a session whose desktop id is 0, \<open>resizeDesktopTexture\<close> returns
  \<open>RF_STATUS_INVALID_DESKTOP_ID\<close> without any call and without changing any member.
  Yet a session constructed with desktop id 0 initializes successfully wherever the
  driver accepts target 0 and the other steps succeed; the initialized session still has
  id 0, composites in untracked mode, and fails every desktop-side resize in the same
  way.
\<close>

theorem desktop_id_zero:
  "(m_uiDesktopId s = 0 \<longrightarrow>
      resizeDesktopTexture env g s = Inr (RF_STATUS_INVALID_DESKTOP_ID, s, []))
   \<and> (GLDOPPCapture env0 0 pDrv = Inr (s0, c0) \<and> init_prereq env w h s0 \<longrightarrow>
        (\<exists>s' cs. initDOPP env g w h rot False False s0 = Inr (RF_STATUS_OK, all_procs, s', cs)
           \<and> m_uiDesktopId s' = 0
           \<and> (\<exists>cs'. processDesktop env all_procs idx s' =
                       Inr (True, s'\<lparr>m_bDesktopChanged := False\<rparr>, cs') \<and> composited cs')
           \<and> resizeDesktopTexture env' all_procs s' =
               Inr (RF_STATUS_INVALID_DESKTOP_ID, s', [])))"
proof -
  have a: "m_uiDesktopId s = 0 \<longrightarrow>
      resizeDesktopTexture env g s = Inr (RF_STATUS_INVALID_DESKTOP_ID, s, [])"
    using resizeDesktopTexture_id_zero [of s env g] by blast
  have b: "\<exists>s' cs. initDOPP env g w h rot False False s0 = Inr (RF_STATUS_OK, all_procs, s', cs)
           \<and> m_uiDesktopId s' = 0
           \<and> (\<exists>cs'. processDesktop env all_procs idx s' =
                       Inr (True, s'\<lparr>m_bDesktopChanged := False\<rparr>, cs') \<and> composited cs')
           \<and> resizeDesktopTexture env' all_procs s' =
               Inr (RF_STATUS_INVALID_DESKTOP_ID, s', [])"
    if c: "GLDOPPCapture env0 0 pDrv = Inr (s0, c0)" and p: "init_prereq env w h s0"
  proof -
    have s0: "s0 = member_init 0" using c by (rule GLDOPPCapture_members)
    then have f: "\<not> m_NotificationThread s0" "0 < m_uiNumTargets s0" "m_uiDesktopId s0 = 0"
      by (simp_all add: member_init_def)
    let ?s6 = "after_createQuad env w h s0"
    have nt: "\<not> m_NotificationThread ?s6" using f(1) by (simp add: after_createQuad_def)
    from initDOPP_tracking_result [OF nt, of env False False] obtain s7 cT where
      t: "initDOPP_tracking env False False ?s6 = Inr (s7, cT)"
      and tr: "\<not> m_bTrackDesktopChanges s7"
      by force
    from initDOPP_prereq [OF p, of g rot False False] t obtain c where
      i: "initDOPP env g w h rot False False s0 =
            Inr (RF_STATUS_OK, all_procs, s7, c @ cT @ [LockRelease])"
      by auto
    from initDOPP_OK_members [OF i] f(3) have id: "m_uiDesktopId s7 = 0" by simp
    have cr: "can_render all_procs s7" using can_render_after_initDOPP [OF i f(2)] .
    from processDesktop_composites [OF cr, of env idx] tr
    have pd: "\<exists>cs'. processDesktop env all_procs idx s7 =
                       Inr (True, s7\<lparr>m_bDesktopChanged := False\<rparr>, cs') \<and> composited cs'"
      by blast
    from i id pd resizeDesktopTexture_id_zero [OF id, of env' all_procs] show ?thesis by blast
  qed
  from a b show ?thesis by blast
qed

theorem desktop_id_zero_witness:
  "m_uiDesktopId (sample_initialised 0 False False) = 0
   \<and> resizeDesktopTexture sample_driver all_procs (sample_initialised 0 False False) =
       Inr (RF_STATUS_INVALID_DESKTOP_ID, sample_initialised 0 False False, [])
   \<and> GLDOPPCapture sample_driver 0 True =
       Inr (member_init 0, [SYS GetDoppState, StoreDesktopChanged False])
   \<and> init_prereq sample_driver 16 16 (member_init 0)
   \<and> (\<exists>s' cs. initDOPP sample_driver no_procs 16 16 0 False False (member_init 0) =
                 Inr (RF_STATUS_OK, all_procs, s', cs)
         \<and> m_uiDesktopId s' = 0
         \<and> (\<exists>cs'. processDesktop sample_driver all_procs 0 s' =
                     Inr (True, s'\<lparr>m_bDesktopChanged := False\<rparr>, cs') \<and> composited cs')
         \<and> resizeDesktopTexture sample_driver all_procs s' =
             Inr (RF_STATUS_INVALID_DESKTOP_ID, s', []))"
proof -
  have z: "m_uiDesktopId (sample_initialised 0 False False) = 0"
    by (simp add: sample_initialised_def)
  have c: "GLDOPPCapture sample_driver 0 True =
       Inr (member_init 0, [SYS GetDoppState, StoreDesktopChanged False])"
    by (simp add: GLDOPPCapture_def sample_driver_def)
  have p: "init_prereq sample_driver 16 16 (member_init 0)" by (rule init_prereq_sample)
  note t = desktop_id_zero [where s = "sample_initialised 0 False False" and env = sample_driver
      and g = no_procs and ?env0.0 = sample_driver and pDrv = True and ?s0.0 = "member_init 0"
      and ?c0.0 = "[SYS GetDoppState, StoreDesktopChanged False]" and w = 16 and h = 16
      and rot = 0 and idx = 0 and env' = sample_driver]
  note u = desktop_id_zero [where s = "sample_initialised 0 False False" and env = sample_driver
      and g = all_procs]
  from u z have 1: "resizeDesktopTexture sample_driver all_procs (sample_initialised 0 False False) =
       Inr (RF_STATUS_INVALID_DESKTOP_ID, sample_initialised 0 False False, [])"
    by blast
  from t c p have 2: "\<exists>s' cs. initDOPP sample_driver no_procs 16 16 0 False False (member_init 0) =
                 Inr (RF_STATUS_OK, all_procs, s', cs)
         \<and> m_uiDesktopId s' = 0
         \<and> (\<exists>cs'. processDesktop sample_driver all_procs 0 s' =
                     Inr (True, s'\<lparr>m_bDesktopChanged := False\<rparr>, cs') \<and> composited cs')
         \<and> resizeDesktopTexture sample_driver all_procs s' =
             Inr (RF_STATUS_INVALID_DESKTOP_ID, s', [])"
    by blast
  from z 1 c p 2 show ?thesis by blast
qed

end
